theory Spec2Isabelle
  imports Complex_Main "HOL-Library.Word" "HOL-Library.Sublist"
begin

unbundle bit_operations_syntax

section \<open>Go values used by main.go\<close>

text \<open>
  A Go \<open>error\<close> value, as far as main.go tells errors apart: the sentinel \<open>io.EOF\<close>
  (compared by identity on line 154) and every other error, known by the text its
  \<open>Error()\<close> method returns.
\<close>

datatype error = io_EOF | errorString string

fun Error :: "error \<Rightarrow> string" where
  "Error io_EOF = ''EOF''"
| "Error (errorString m) = m"

text \<open>
  How a call ends: it returns, or a run-time panic unwinds it (the deferred calls run
  and the process exits with status 2), or the runtime aborts the process at once with
  a fatal error (nothing deferred runs; status 2).
\<close>

datatype 'a outcome = Returns 'a | Panics | Dies

text \<open>
  Go's \<open>/\<close> on integers truncates towards zero, and an \<open>int\<close> or \<open>int64\<close> wraps around at
  64 bits.
\<close>

definition go_div :: "int \<Rightarrow> int \<Rightarrow> int" where
  "go_div a b = sgn a * sgn b * (\<bar>a\<bar> div \<bar>b\<bar>)"

definition int64 :: "int \<Rightarrow> int" where
  "int64 i = sint (word_of_int i :: 64 word)"

type_synonym int16 = "16 word"
type_synonym int32 = "32 word"
type_synonym byte = "8 word"

text \<open>
  \<open>fmt.Errorf(msg + "%w", err)\<close> (lines 101-187): an error whose text is \<open>msg\<close> followed by
  the text of \<open>err\<close>.
\<close>

definition Errorf :: "string \<Rightarrow> error \<Rightarrow> error" where
  "Errorf msg e = errorString (msg @ Error e)"

subsection \<open>Decimal printing (the verb \<open>%d\<close>)\<close>

definition digit_char :: "nat \<Rightarrow> char" where
  "digit_char d = char_of (48 + d)"

fun itoa_nat :: "nat \<Rightarrow> string" where
  "itoa_nat n = (if n < 10 then [digit_char n] else itoa_nat (n div 10) @ [digit_char (n mod 10)])"

declare itoa_nat.simps [simp del]

definition Itoa :: "int \<Rightarrow> string" where
  "Itoa i = (if i < 0 then CHR ''-'' # itoa_nat (nat (- i)) else itoa_nat (nat i))"

subsection \<open>\<open>strings.TrimSpace\<close> (line 192)\<close>

text \<open>
  A Go string is a sequence of bytes, here a \<open>string\<close>. \<open>strings.TrimSpace\<close> removes the
  leading and the trailing runes that \<open>unicode.IsSpace\<close> accepts. A rune is read off the
  front or the back of the string only from its well-formed UTF-8 encoding, so the
  runes removed are the occurrences of the encodings below: U+0009 to U+000D, U+0020,
  U+0085, U+00A0, U+1680, U+2000 to U+200A, U+2028, U+2029, U+202F, U+205F, U+3000.
\<close>

definition space_encodings :: "string list" where
  "space_encodings =
     [[CHR 0x09], [CHR 0x0A], [CHR 0x0B], [CHR 0x0C], [CHR 0x0D], [CHR 0x20],
      [CHR 0xC2, CHR 0x85], [CHR 0xC2, CHR 0xA0],
      [CHR 0xE1, CHR 0x9A, CHR 0x80],
      [CHR 0xE2, CHR 0x80, CHR 0x80], [CHR 0xE2, CHR 0x80, CHR 0x81],
      [CHR 0xE2, CHR 0x80, CHR 0x82], [CHR 0xE2, CHR 0x80, CHR 0x83],
      [CHR 0xE2, CHR 0x80, CHR 0x84], [CHR 0xE2, CHR 0x80, CHR 0x85],
      [CHR 0xE2, CHR 0x80, CHR 0x86], [CHR 0xE2, CHR 0x80, CHR 0x87],
      [CHR 0xE2, CHR 0x80, CHR 0x88], [CHR 0xE2, CHR 0x80, CHR 0x89],
      [CHR 0xE2, CHR 0x80, CHR 0x8A],
      [CHR 0xE2, CHR 0x80, CHR 0xA8], [CHR 0xE2, CHR 0x80, CHR 0xA9],
      [CHR 0xE2, CHR 0x80, CHR 0xAF],
      [CHR 0xE2, CHR 0x81, CHR 0x9F],
      [CHR 0xE3, CHR 0x80, CHR 0x80]]"

definition leading_space :: "string \<Rightarrow> string option" where
  "leading_space s = find (\<lambda>e. prefix e s) space_encodings"

definition trailing_space :: "string \<Rightarrow> string option" where
  "trailing_space s = find (\<lambda>e. suffix e s) space_encodings"

function TrimLeft :: "string \<Rightarrow> string" where
  "TrimLeft s = (case leading_space s of None \<Rightarrow> s | Some e \<Rightarrow> TrimLeft (drop (length e) s))"
  by pat_completeness auto
termination
proof (relation "measure length")
  show "wf (measure length)" by simp
next
  fix s e assume "leading_space s = Some e"
  then have "e \<in> set space_encodings" and p: "prefix e s"
    by (auto simp: leading_space_def find_Some_iff)
  then have "e \<noteq> []"
    by (auto simp: space_encodings_def)
  with p show "(drop (length e) s, s) \<in> measure length"
    by (cases s) (auto simp: prefix_def)
qed

function TrimRight :: "string \<Rightarrow> string" where
  "TrimRight s =
     (case trailing_space s of None \<Rightarrow> s | Some e \<Rightarrow> TrimRight (take (length s - length e) s))"
  by pat_completeness auto
termination
proof (relation "measure length")
  show "wf (measure length)" by simp
next
  fix s e assume "trailing_space s = Some e"
  then have "e \<in> set space_encodings" and p: "suffix e s"
    by (auto simp: trailing_space_def find_Some_iff)
  then have "e \<noteq> []"
    by (auto simp: space_encodings_def)
  with p show "(take (length s - length e) s, s) \<in> measure length"
    by (cases s) (auto simp: suffix_def)
qed

declare TrimLeft.simps [simp del]
declare TrimRight.simps [simp del]

definition TrimSpace :: "string \<Rightarrow> string" where
  "TrimSpace s = TrimRight (TrimLeft s)"

text \<open>A string made of white space only: a concatenation of the encodings above.\<close>

inductive whitespace :: "string \<Rightarrow> bool" where
  empty: "whitespace []"
| rune: "e \<in> set space_encodings \<Longrightarrow> whitespace s \<Longrightarrow> whitespace (e @ s)"

subsection \<open>\<open>filepath.Base\<close> on a slash-separated path (line 249)\<close>

definition Base :: "string \<Rightarrow> string" where
  "Base p =
     (if p = [] then ''.''
      else let q = rev (dropWhile (\<lambda>c. c = CHR ''/'') (rev p));
               r = rev (takeWhile (\<lambda>c. c \<noteq> CHR ''/'') (rev q))
           in if r = [] then ''/'' else r)"

section \<open>JSON values and their decoding into the response structs (lines 59-71)\<close>

text \<open>
  The value a \<open>json.Decoder\<close> reads: the syntax tree of the first JSON value of the
  body. An object keeps its members in the order of the text, names unquoted.
\<close>

datatype json = JNull | JBool bool | JNumber string | JString string
  | JArray "json list" | JObject "(string \<times> json) list"

fun json_kind :: "json \<Rightarrow> string" where
  "json_kind JNull = ''null''"
| "json_kind (JBool b) = ''bool''"
| "json_kind (JNumber n) = ''number''"
| "json_kind (JString s) = ''string''"
| "json_kind (JArray xs) = ''array''"
| "json_kind (JObject kvs) = ''object''"

text \<open>
  The \<open>*json.UnmarshalTypeError\<close> for a JSON value that does not fit its Go target, with
  the text of its \<open>Error\<close> method: the kind of the JSON value, the target (a struct field,
  named by the struct type and the path of tags leading to it, or \<open>Go value\<close> at the
  top) and the Go type as \<open>reflect\<close> prints it.
\<close>

definition UnmarshalTypeError :: "json \<Rightarrow> string \<Rightarrow> string \<Rightarrow> error" where
  "UnmarshalTypeError j target ty =
     errorString (''json: cannot unmarshal '' @ json_kind j @ '' into '' @ target
                  @ '' of type '' @ ty)"

text \<open>
  The Go types of lines 60-66 as \<open>reflect\<close> prints them. The two structs inside
  \<open>openAIChatResponse\<close> have no name; a field's tag is printed quoted after its type.
\<close>

definition struct_tag :: "string \<Rightarrow> string" where
  "struct_tag name =
     [CHR 0x22] @ ''json:'' @ [CHR 0x5C, CHR 0x22] @ name @ [CHR 0x5C, CHR 0x22, CHR 0x22]"

definition message_type :: string where
  "message_type = ''struct { Content string '' @ struct_tag ''content'' @ '' }''"

definition choice_type :: string where
  "choice_type = ''struct { Message '' @ message_type @ '' '' @ struct_tag ''message'' @ '' }''"

text \<open>
  \<open>encoding/json\<close> matches a member name to a struct field by its tag, exactly or up to
  case folding (\<open>bytes.EqualFold\<close>). Against the four ASCII tags of main.go, folding is:
  ASCII letters to upper case, and the two non-ASCII runes that fold to an ASCII
  letter, U+017F (bytes C5 BF) to S and U+212A (bytes E2 84 AA) to K.
\<close>

definition toUpper :: "char \<Rightarrow> char" where
  "toUpper c = (if 97 \<le> (of_char c :: nat) \<and> (of_char c :: nat) \<le> 122
                then char_of ((of_char c :: nat) - 32) else c)"

function foldName :: "string \<Rightarrow> string" where
  "foldName [] = []"
| "foldName (c # cs) =
     (if prefix [CHR 0xC5, CHR 0xBF] (c # cs) then CHR ''S'' # foldName (drop 1 cs)
      else if prefix [CHR 0xE2, CHR 0x84, CHR 0xAA] (c # cs) then CHR ''K'' # foldName (drop 2 cs)
      else toUpper c # foldName cs)"
  by pat_completeness auto
termination
  by (relation "measure length") auto

definition EqualFold :: "string \<Rightarrow> string \<Rightarrow> bool" where
  "EqualFold s t = (foldName s = foldName t)"

text \<open>The members of an object that the decoder stores into the field tagged \<open>name\<close>.\<close>

definition members :: "string \<Rightarrow> (string \<times> json) list \<Rightarrow> json list" where
  "members name kvs = map snd (filter (\<lambda>kv. EqualFold (fst kv) name) kvs)"

record message =
  Content :: string

record choice =
  Message :: message

record openAIChatResponse =
  Choices :: "choice list"

record openAITranscriptionResponse =
  Text :: string

text \<open>
  Decoding stores into a Go value that already holds something (\<open>cur\<close>), as
  \<open>Decode(&v)\<close> does. An object is decoded member by member, in order: a member whose
  name matches the field is decoded into it, any other member is skipped. \<open>null\<close>
  leaves a string or a struct as it is and makes a slice nil. A JSON value of the
  wrong kind is an \<open>UnmarshalTypeError\<close>; \<open>Decode\<close> returns the earliest one, and main.go
  drops the decoded value whenever \<open>Decode\<close> returns an error.
\<close>

fun object_into ::
  "string \<Rightarrow> (json \<Rightarrow> 'a \<Rightarrow> error + 'a) \<Rightarrow> (string \<times> json) list \<Rightarrow> 'a \<Rightarrow> error + 'a" where
  "object_into name dec [] cur = Inr cur"
| "object_into name dec ((k, v) # kvs) cur =
     (if EqualFold k name
      then (case dec v cur of Inl e \<Rightarrow> Inl e | Inr cur' \<Rightarrow> object_into name dec kvs cur')
      else object_into name dec kvs cur)"

fun decode_string :: "string \<Rightarrow> json \<Rightarrow> string \<Rightarrow> error + string" where
  "decode_string target (JString s) cur = Inr s"
| "decode_string target JNull cur = Inr cur"
| "decode_string target j cur = Inl (UnmarshalTypeError j target ''string'')"

fun decode_message :: "json \<Rightarrow> message \<Rightarrow> error + message" where
  "decode_message (JObject kvs) cur =
     (case object_into ''content''
             (decode_string ''Go struct field .choices.message.content'') kvs (Content cur) of
        Inl e \<Rightarrow> Inl e | Inr s \<Rightarrow> Inr (cur\<lparr>Content := s\<rparr>))"
| "decode_message JNull cur = Inr cur"
| "decode_message j cur =
     Inl (UnmarshalTypeError j ''Go struct field .choices.message'' message_type)"

fun decode_choice :: "json \<Rightarrow> choice \<Rightarrow> error + choice" where
  "decode_choice (JObject kvs) cur =
     (case object_into ''message'' decode_message kvs (Message cur) of
        Inl e \<Rightarrow> Inl e | Inr m \<Rightarrow> Inr (cur\<lparr>Message := m\<rparr>))"
| "decode_choice JNull cur = Inr cur"
| "decode_choice j cur =
     Inl (UnmarshalTypeError j ''Go struct field openAIChatResponse.choices'' choice_type)"

definition zero_choice :: choice where
  "zero_choice = \<lparr>Message = \<lparr>Content = []\<rparr>\<rparr>"

text \<open>
  An array is decoded into the slice in place. Item \<open>i\<close> is decoded into element \<open>i\<close> of
  the slice's storage: the element the slice holds there, or the one an earlier,
  longer array of the same \<open>Decode\<close> left beyond its length, or a zero value. The slice
  ends with one element per item; an empty array makes it a new empty slice. So the
  slice is modelled by its elements and by what its storage holds beyond them
  (\<open>spare\<close>); both are empty when \<open>Decode\<close> starts. \<open>decode_elements\<close> takes the storage.
\<close>

fun decode_elements :: "json list \<Rightarrow> choice list \<Rightarrow> error + choice list" where
  "decode_elements [] storage = Inr []"
| "decode_elements (x # xs) storage =
     (case decode_choice x (case storage of [] \<Rightarrow> zero_choice | c # cs \<Rightarrow> c) of
        Inl e \<Rightarrow> Inl e
      | Inr c \<Rightarrow>
          (case decode_elements xs (tl storage) of Inl e \<Rightarrow> Inl e | Inr cs \<Rightarrow> Inr (c # cs)))"

fun decode_choices ::
  "json \<Rightarrow> choice list \<times> choice list \<Rightarrow> error + choice list \<times> choice list" where
  "decode_choices (JArray xs) (cur, spare) =
     (if xs = [] then Inr ([], [])
      else (case decode_elements xs (cur @ spare) of
              Inl e \<Rightarrow> Inl e
            | Inr cs \<Rightarrow> Inr (cs, drop (length xs) (cur @ spare))))"
| "decode_choices JNull (cur, spare) = Inr ([], [])"
| "decode_choices j (cur, spare) =
     Inl (UnmarshalTypeError j ''Go struct field openAIChatResponse.choices''
            (''[]'' @ choice_type))"

fun decode_chat :: "json \<Rightarrow> openAIChatResponse \<Rightarrow> error + openAIChatResponse" where
  "decode_chat (JObject kvs) cur =
     (case object_into ''choices'' decode_choices kvs (Choices cur, []) of
        Inl e \<Rightarrow> Inl e | Inr (cs, spare) \<Rightarrow> Inr (cur\<lparr>Choices := cs\<rparr>))"
| "decode_chat JNull cur = Inr cur"
| "decode_chat j cur = Inl (UnmarshalTypeError j ''Go value'' ''main.openAIChatResponse'')"

fun decode_transcription ::
  "json \<Rightarrow> openAITranscriptionResponse \<Rightarrow> error + openAITranscriptionResponse" where
  "decode_transcription (JObject kvs) cur =
     (case object_into ''text''
             (decode_string ''Go struct field openAITranscriptionResponse.text'') kvs (Text cur) of
        Inl e \<Rightarrow> Inl e | Inr s \<Rightarrow> Inr (cur\<lparr>Text := s\<rparr>))"
| "decode_transcription JNull cur = Inr cur"
| "decode_transcription j cur =
     Inl (UnmarshalTypeError j ''Go value'' ''main.openAITranscriptionResponse'')"

text \<open>
  A chat response body of the documented shape
  \<open>{"choices": [{"message": {"content": string}}, ...]}\<close>, read as the decoder reads it:
  one member for \<open>choices\<close>, an array; each item an object with one member for
  \<open>message\<close>, an object with one member for \<open>content\<close>, a string. Members under other
  names are free. \<open>chat_choices\<close> gives the contents, in order.
\<close>

fun choice_content :: "json \<Rightarrow> string option" where
  "choice_content (JObject c) =
     (case members ''message'' c of
        [JObject m] \<Rightarrow> (case members ''content'' m of [JString s] \<Rightarrow> Some s | _ \<Rightarrow> None)
      | _ \<Rightarrow> None)"
| "choice_content j = None"

fun chat_choices :: "json \<Rightarrow> string list option" where
  "chat_choices (JObject kvs) =
     (case members ''choices'' kvs of
        [JArray xs] \<Rightarrow>
          (if list_all (\<lambda>x. choice_content x \<noteq> None) xs
           then Some (map (\<lambda>x. the (choice_content x)) xs) else None)
      | _ \<Rightarrow> None)"
| "chat_choices j = None"

section \<open>The WAV file (writeWavFile, lines 196-234)\<close>

text \<open>
  \<open>int16ToIntSlice\<close> (lines 228-234): every sample converted by \<open>int(v)\<close>, that is, read
  as a signed number.
\<close>

definition int16ToIntSlice :: "int16 list \<Rightarrow> int list" where
  "int16ToIntSlice xs = map sint xs"

text \<open>
  Modelled from the spec: little-endian fields of 16 and 32 bits, for the container
  writer that writeWavFile calls (\<open>wav.NewEncoder\<close>, \<open>Write\<close>, \<open>Close\<close> of package
  github.com/go-audio/wav) and that src/ does not contain. Spec 4.1: "writes the
  canonical RIFF/WAVE header followed by raw little-endian 16-bit sample data".
\<close>

definition le16 :: "16 word \<Rightarrow> byte list" where
  "le16 w = [ucast w, ucast (drop_bit 8 w)]"

definition le32 :: "32 word \<Rightarrow> byte list" where
  "le32 w = [ucast w, ucast (drop_bit 8 w), ucast (drop_bit 16 w), ucast (drop_bit 24 w)]"

definition rd16 :: "byte list \<Rightarrow> 16 word" where
  "rd16 bs = (case bs of [a, b] \<Rightarrow> ucast a OR push_bit 8 (ucast b) | _ \<Rightarrow> 0)"

definition rd32 :: "byte list \<Rightarrow> 32 word" where
  "rd32 bs = (case bs of [a, b, c, d] \<Rightarrow>
      ucast a OR push_bit 8 (ucast b) OR push_bit 16 (ucast c) OR push_bit 24 (ucast d) | _ \<Rightarrow> 0)"

text \<open>
  Modelled from the spec: the four chunk tags of the canonical header, "RIFF", "WAVE",
  "fmt " and "data", as bytes.
\<close>

definition tag_RIFF :: "byte list" where "tag_RIFF = [0x52, 0x49, 0x46, 0x46]"
definition tag_WAVE :: "byte list" where "tag_WAVE = [0x57, 0x41, 0x56, 0x45]"
definition tag_fmt :: "byte list" where "tag_fmt = [0x66, 0x6D, 0x74, 0x20]"
definition tag_data :: "byte list" where "tag_data = [0x64, 0x61, 0x74, 0x61]"

text \<open>
  Modelled from the spec: the sample data of the absent container writer. The data
  chunk of a PCM file is a sequence of frames of \<open>numChans\<close> samples each (its block
  size), so the samples written are the whole frames of the sequence; a channel count
  below 1 is outside the spec's input constraint and yields no frame. Each sample is
  stored as \<open>int16\<close>, low byte first.
\<close>

definition whole_frames :: "int \<Rightarrow> 'a list \<Rightarrow> 'a list" where
  "whole_frames numChans xs =
     (if numChans \<le> 0 then [] else take (length xs div nat numChans * nat numChans) xs)"

definition pcm16_data :: "int \<Rightarrow> int list \<Rightarrow> byte list" where
  "pcm16_data numChans xs = concat (map (\<lambda>v. le16 (word_of_int v)) (whole_frames numChans xs))"

text \<open>
  Modelled from the spec: the canonical 44-byte header of the absent container writer,
  for 16-bit PCM (format tag 1). The channel count and the block size are 16-bit
  fields, the sizes, the sample rate and the byte rate 32-bit fields; a Go \<open>int\<close> is
  stored in a field by conversion to the field's unsigned type.
\<close>

definition wav_header :: "int \<Rightarrow> int \<Rightarrow> nat \<Rightarrow> byte list" where
  "wav_header sampleRate numChans dlen =
     tag_RIFF @ le32 (of_nat (36 + dlen)) @ tag_WAVE
     @ tag_fmt @ le32 16 @ le16 1 @ le16 (word_of_int numChans) @ le32 (word_of_int sampleRate)
     @ le32 (word_of_int (sampleRate * numChans * 2)) @ le16 (word_of_int (numChans * 2)) @ le16 16
     @ tag_data @ le32 (of_nat dlen)"

text \<open>
  Modelled from the spec: the file the absent container writer leaves once \<open>Write\<close> and
  \<open>Close\<close> have succeeded, header then data.
\<close>

definition wav_encode :: "int \<Rightarrow> int \<Rightarrow> int list \<Rightarrow> byte list" where
  "wav_encode sampleRate numChans xs =
     wav_header sampleRate numChans (length (pcm16_data numChans xs)) @ pcm16_data numChans xs"

text \<open>
  Modelled from the spec: "reading back the resulting WAV file" (spec 8), for which
  the repository has no code. The reader accepts a file made of the canonical header
  and a data chunk that fills the rest of it, and returns the channel count, the
  sample rate and the samples.
\<close>

record wav_file =
  NumChannels :: nat
  SampleRate :: nat
  BitsPerSample :: nat
  Samples :: "int16 list"

fun rd_samples :: "byte list \<Rightarrow> int16 list" where
  "rd_samples (a # b # rest) = rd16 [a, b] # rd_samples rest"
| "rd_samples rest = []"

definition wav_decode :: "byte list \<Rightarrow> wav_file option" where
  "wav_decode bs =
     (if length bs < 44 then None
      else if take 4 bs = tag_RIFF
            \<and> unat (rd32 (take 4 (drop 4 bs))) = length bs - 8
            \<and> take 4 (drop 8 bs) = tag_WAVE
            \<and> take 4 (drop 12 bs) = tag_fmt
            \<and> rd32 (take 4 (drop 16 bs)) = 16
            \<and> rd16 (take 2 (drop 20 bs)) = 1
            \<and> rd16 (take 2 (drop 34 bs)) = 16
            \<and> take 4 (drop 36 bs) = tag_data
            \<and> unat (rd32 (take 4 (drop 40 bs))) = length bs - 44
            \<and> even (length bs)
      then Some \<lparr> NumChannels = unat (rd16 (take 2 (drop 22 bs))),
                  SampleRate = unat (rd32 (take 4 (drop 24 bs))),
                  BitsPerSample = 16,
                  Samples = rd_samples (drop 44 bs) \<rparr>
      else None)"

text \<open>
  Modelled from the spec: the constructor \<open>wav.NewEncoder\<close> of the absent container
  writer (line 206). The spec gives the writer no failure of its own; the package's
  constructor, before anything is written, makes a byte buffer for one minute of
  audio, of capacity \<open>time.Minute / (time.Second / sampleRate) * (bitDepth / 8) * numChans\<close>
  computed in 64-bit integers (durations are in nanoseconds, the bit depth is 16).
  \<open>None\<close> is the panic of an integer division by zero: \<open>sampleRate\<close> is 0, or exceeds
  10^9 so that a sample lasts 0 nanoseconds. A negative capacity makes \<open>make\<close> panic.
  Whether a buffer of a capacity that is not negative can be had is up to the platform
  and the machine: \<open>make\<close> gives it, or panics (capacity out of range), or the runtime
  dies (out of memory).
\<close>

definition NewEncoder_cap :: "int \<Rightarrow> int \<Rightarrow> int option" where
  "NewEncoder_cap sampleRate numChans =
     (if sampleRate = 0 then None
      else let ns = go_div 1000000000 sampleRate in
           if ns = 0 then None
           else Some (int64 (go_div 60000000000 ns * 2 * numChans)))"

datatype buffer = Allocated | CapOutOfRange | OutOfMemory

text \<open>
  The bytes writeWavFile leaves in the file when every call succeeds (lines 206-223):
  the encoder is made for \<open>sampleRate\<close>, 16 bits, \<open>numChans\<close> and format 1, and is given
  the converted samples.
\<close>

definition wav_file_bytes :: "int16 list \<Rightarrow> int \<Rightarrow> int \<Rightarrow> byte list" where
  "wav_file_bytes samples numChans sampleRate =
     wav_encode sampleRate numChans (int16ToIntSlice samples)"

section \<open>The recording loop and the two watcher goroutines (run, lines 111-160)\<close>

definition framesPerChunk :: nat where
  "framesPerChunk = 1024"

text \<open>
  One call of \<open>stream.Read()\<close>. The stream was opened on the slice \<open>in\<close>, so the call
  may overwrite a prefix of that slice (all of it on a complete read) and returns an
  error or nil. Both are decided by the device: \<open>written\<close> holds the samples the call
  stored, \<open>read_err\<close> its result. The slice keeps its length.
\<close>

record read_outcome =
  written :: "int16 list"
  read_err :: "error option"

definition store_chunk :: "int16 list \<Rightarrow> int16 list \<Rightarrow> int16 list" where
  "store_chunk ws buf = take (length buf) ws @ drop (length ws) buf"

text \<open>
  Where the main goroutine stands: about to evaluate the loop condition (line 153),
  about to call \<open>stream.Read\<close> (line 154), past the loop (line 162), or returned with
  the read error of line 156.
\<close>

datatype location = LoopHead | LoopBody | LoopExited | ReadFailed error

datatype goroutine = Waiting | Finished

record capture_state =
  stopRecording :: int32
  in_buf :: "int16 list"
  recordedData :: "int16 list"
  pc :: location
  stdinWatcher :: goroutine
  signalWatcher :: goroutine

text \<open>
  The atomic steps of the three goroutines. \<open>StdinReadReturns\<close>: \<open>ReadString\<close> of line
  140 returns and line 141 stores 1. \<open>SignalReceived\<close>: the receive of line 148 returns
  and line 149 stores 1. \<open>LoadFlag\<close>: the atomic load of line 153. \<open>StreamRead r\<close>:
  lines 154-159 with the device behaving as \<open>r\<close>. The flag is only touched through
  \<open>sync/atomic\<close>, so an interleaving of these steps is a faithful run.
\<close>

datatype action = StdinReadReturns | SignalReceived | LoadFlag | StreamRead read_outcome

definition initial_state :: capture_state where
  "initial_state =
     \<lparr> stopRecording = 0,
       in_buf = replicate framesPerChunk 0,
       recordedData = [],
       pc = LoopHead,
       stdinWatcher = Waiting,
       signalWatcher = Waiting \<rparr>"

fun step :: "action \<Rightarrow> capture_state \<Rightarrow> capture_state" where
  "step StdinReadReturns s =
     (if stdinWatcher s = Waiting
      then s\<lparr>stopRecording := 1, stdinWatcher := Finished\<rparr>
      else s)"
| "step SignalReceived s =
     (if signalWatcher s = Waiting
      then s\<lparr>stopRecording := 1, signalWatcher := Finished\<rparr>
      else s)"
| "step LoadFlag s =
     (if pc s = LoopHead
      then (if stopRecording s = 0 then s\<lparr>pc := LoopBody\<rparr> else s\<lparr>pc := LoopExited\<rparr>)
      else s)"
| "step (StreamRead r) s =
     (if pc s = LoopBody
      then (let buf = store_chunk (written r) (in_buf s) in
            case read_err r of
              None \<Rightarrow> s\<lparr>in_buf := buf, recordedData := recordedData s @ buf, pc := LoopHead\<rparr>
            | Some e \<Rightarrow>
                if e \<noteq> io_EOF
                then s\<lparr>in_buf := buf, pc := ReadFailed e\<rparr>
                else s\<lparr>in_buf := buf, recordedData := recordedData s @ buf, pc := LoopHead\<rparr>)
      else s)"

text \<open>A run of the system: the steps of a schedule, taken in order.\<close>

fun exec :: "action list \<Rightarrow> capture_state \<Rightarrow> capture_state" where
  "exec [] s = s"
| "exec (a # as) s = exec as (step a s)"

definition in_loop :: "capture_state \<Rightarrow> bool" where
  "in_loop s = (pc s = LoopHead \<or> pc s = LoopBody)"

section \<open>What the program does to the outside\<close>

text \<open>
  The calls main.go makes to the outside, in the order it makes them; a run of the
  program is the list of its calls and its exit status. What each call returns is
  decided outside the program and is given to the model as an input. An HTTP response
  is its status code, the text \<open>io.ReadAll\<close> gets from its body, and what a
  \<open>json.Decoder\<close> on the body reads first: a JSON value, or the error of the reader or
  of the syntax.
\<close>

record Response =
  StatusCode :: int
  Body :: string
  BodyJSON :: "error + json"

record openAIChatRequest =
  Model :: string
  Messages :: "(string \<times> string) list list"
  Temperature :: real

datatype payload = Multipart string "byte list" string | ChatJSON openAIChatRequest

text \<open>
  \<open>HttpPost url authorization payload\<close> is a call of \<open>client.Do\<close>; \<open>WavWritten f bs\<close> stands
  for \<open>enc.Write\<close> and \<open>enc.Close\<close> having both succeeded and left \<open>bs\<close> in \<open>f\<close>;
  \<open>StartWatchers\<close> for lines 135-150; \<open>Stdout\<close> for a \<open>fmt.Printf\<close>. The first three are
  the calls of \<open>init\<close> (lines 73-83). Between \<open>SpinnerStart\<close> and \<open>SpinnerStop\<close> the spinner
  animates the terminal on its own; \<open>stdout\<close> below is what the program itself prints.
\<close>

datatype event =
    Setenv string string | SetJackErrorHandler | SetAlsaErrorHandler
  | LoadDotenv
  | PaInitialize | PaTerminate
  | OpenDefaultStream | StreamStart | StreamStop | StreamClose
  | SpinnerStart | SpinnerStop | SpinnerSuffix string
  | StartWatchers
  | OsCreate string | WavWritten string "byte list" | FileClose string
  | OsOpen string | OsRemove string
  | HttpPost string string payload | BodyClose
  | Stdout string

fun stdout :: "event list \<Rightarrow> string" where
  "stdout [] = []"
| "stdout (Stdout s # evs) = s @ stdout evs"
| "stdout (e # evs) = stdout evs"

fun is_HttpPost :: "event \<Rightarrow> bool" where
  "is_HttpPost (HttpPost url auth p) = True"
| "is_HttpPost e = False"

subsection \<open>writeWavFile (lines 196-225)\<close>

text \<open>
  What the fallible calls return: \<open>os.Create\<close> (line 199), the allocation of the
  encoder's buffer in \<open>wav.NewEncoder\<close> (line 206), \<open>enc.Write\<close> (line 218) and \<open>enc.Close\<close>
  (line 221); \<open>None\<close> is a nil error. The deferred \<open>outFile.Close\<close> of line 203 runs at
  every return after it and when a panic unwinds. Memory is otherwise taken to be
  sufficient; the buffer is modelled because its size depends on \<open>sampleRate\<close> and
  \<open>numChans\<close> alone.
\<close>

record wav_env =
  create_err :: "error option"
  encoder_buffer :: buffer
  enc_write_err :: "error option"
  enc_close_err :: "error option"

definition writeWavFile ::
  "wav_env \<Rightarrow> string \<Rightarrow> int16 list \<Rightarrow> int \<Rightarrow> int \<Rightarrow> event list \<times> error option outcome" where
  "writeWavFile env filename samples numChans sampleRate =
     (case create_err env of
        Some e \<Rightarrow> ([OsCreate filename], Returns (Some e))
      | None \<Rightarrow>
     (case NewEncoder_cap sampleRate numChans of
        None \<Rightarrow> ([OsCreate filename, FileClose filename], Panics)
      | Some cap \<Rightarrow>
          if cap < 0 then ([OsCreate filename, FileClose filename], Panics)
          else
     (case encoder_buffer env of
        CapOutOfRange \<Rightarrow> ([OsCreate filename, FileClose filename], Panics)
      | OutOfMemory \<Rightarrow> ([OsCreate filename], Dies)
      | Allocated \<Rightarrow>
     (case enc_write_err env of
        Some e \<Rightarrow> ([OsCreate filename, FileClose filename], Returns (Some e))
      | None \<Rightarrow>
     (case enc_close_err env of
        Some e \<Rightarrow> ([OsCreate filename, FileClose filename], Returns (Some e))
      | None \<Rightarrow>
          ([OsCreate filename,
            WavWritten filename (wav_file_bytes samples numChans sampleRate),
            FileClose filename], Returns None))))))"

subsection \<open>transcribeAudio (lines 236-294)\<close>

text \<open>
  What the fallible calls return, in the order of the code: \<open>os.Open\<close> (line 243),
  \<open>CreateFormFile\<close> (249), \<open>io.Copy\<close> (253, with the bytes it has read from the file),
  \<open>WriteField\<close> (258), the writer's \<open>Close\<close> (262), \<open>http.NewRequest\<close> (267) and
  \<open>client.Do\<close> (276). The closing of the file and of the response body are deferred on
  lines 247 and 280.
\<close>

record transcribe_env =
  open_err :: "error option"
  create_form_file_err :: "error option"
  copy_result :: "error + byte list"
  write_field_err :: "error option"
  writer_close_err :: "error option"
  t_new_request_err :: "error option"
  t_do :: "error + Response"

definition transcription_url :: string where
  "transcription_url = ''https://api.openai.com/v1/audio/transcriptions''"

text \<open>The error of lines 285 and 335.\<close>

definition non200 :: "Response \<Rightarrow> error" where
  "non200 resp =
     errorString (''non-200 status code: '' @ Itoa (StatusCode resp) @ '' - '' @ Body resp)"

definition transcribeAudio ::
  "transcribe_env \<Rightarrow> string \<Rightarrow> string \<Rightarrow> event list \<times> (error + string)" where
  "transcribeAudio env apiKey filePath =
     (case open_err env of
        Some e \<Rightarrow> ([OsOpen filePath], Inl e)
      | None \<Rightarrow>
     (case create_form_file_err env of
        Some e \<Rightarrow> ([OsOpen filePath, FileClose filePath], Inl e)
      | None \<Rightarrow>
     (case copy_result env of
        Inl e \<Rightarrow> ([OsOpen filePath, FileClose filePath], Inl e)
      | Inr bytes \<Rightarrow>
     (case write_field_err env of
        Some e \<Rightarrow> ([OsOpen filePath, FileClose filePath], Inl e)
      | None \<Rightarrow>
     (case writer_close_err env of
        Some e \<Rightarrow> ([OsOpen filePath, FileClose filePath], Inl e)
      | None \<Rightarrow>
     (case t_new_request_err env of
        Some e \<Rightarrow> ([OsOpen filePath, FileClose filePath], Inl e)
      | None \<Rightarrow>
     (let post = HttpPost transcription_url (''Bearer '' @ apiKey)
                   (Multipart (Base filePath) bytes ''whisper-1'') in
      case t_do env of
        Inl e \<Rightarrow> ([OsOpen filePath, post, FileClose filePath], Inl e)
      | Inr resp \<Rightarrow>
          if StatusCode resp \<noteq> 200
          then ([OsOpen filePath, post, BodyClose, FileClose filePath], Inl (non200 resp))
          else (case BodyJSON resp of
                  Inl e \<Rightarrow> ([OsOpen filePath, post, BodyClose, FileClose filePath], Inl e)
                | Inr j \<Rightarrow>
                   (case decode_transcription j \<lparr>Text = []\<rparr> of
                      Inl e \<Rightarrow> ([OsOpen filePath, post, BodyClose, FileClose filePath], Inl e)
                    | Inr transcription \<Rightarrow>
                        ([OsOpen filePath, post, BodyClose, FileClose filePath],
                         Inr (Text transcription)))))))))))"

subsection \<open>generateBashCommand (lines 296-347)\<close>

text \<open>
  What the fallible calls return: \<open>json.Marshal\<close> (line 314), \<open>http.NewRequest\<close> (319) and
  \<open>client.Do\<close> (327).
\<close>

record generate_env =
  marshal_err :: "error option"
  g_new_request_err :: "error option"
  g_do :: "error + Response"

definition chat_url :: string where
  "chat_url = ''https://api.openai.com/v1/chat/completions''"

definition system_instruction :: string where
  "system_instruction = ''You convert natural language instructions into a single valid Bash command. Print the command in plain text without any formatting''"

definition chat_payload :: "string \<Rightarrow> openAIChatRequest" where
  "chat_payload userText =
     \<lparr> Model = ''gpt-4'',
       Messages = [[(''role'', ''system''), (''content'', system_instruction)],
                   [(''role'', ''user''), (''content'', userText)]],
       Temperature = 0 \<rparr>"

definition generateBashCommand ::
  "generate_env \<Rightarrow> string \<Rightarrow> string \<Rightarrow> event list \<times> (error + string)" where
  "generateBashCommand env apiKey userText =
     (case marshal_err env of
        Some e \<Rightarrow> ([], Inl e)
      | None \<Rightarrow>
     (case g_new_request_err env of
        Some e \<Rightarrow> ([], Inl e)
      | None \<Rightarrow>
     (let post = HttpPost chat_url (''Bearer '' @ apiKey) (ChatJSON (chat_payload userText)) in
      case g_do env of
        Inl e \<Rightarrow> ([post], Inl e)
      | Inr resp \<Rightarrow>
          if StatusCode resp \<noteq> 200
          then ([post, BodyClose], Inl (non200 resp))
          else (case BodyJSON resp of
                  Inl e \<Rightarrow> ([post, BodyClose], Inl e)
                | Inr j \<Rightarrow>
                   (case decode_chat j \<lparr>Choices = []\<rparr> of
                      Inl e \<Rightarrow> ([post, BodyClose], Inl e)
                    | Inr chatResp \<Rightarrow>
                       (case Choices chatResp of
                          [] \<Rightarrow> ([post, BodyClose],
                                 Inl (errorString ''no choices returned from chat completion''))
                        | c # cs \<Rightarrow> ([post, BodyClose], Inr (Content (Message c)))))))))"

subsection \<open>run and main (lines 85-194)\<close>

text \<open>
  Everything the outside decides during one run. \<open>OPENAI_API_KEY\<close> is the variable as
  \<open>os.Getenv\<close> finds it after \<open>godotenv.Load\<close>, \<open>None\<close> when it is unset. \<open>schedule\<close> is the
  interleaving of the recording loop with the two watchers and the device.
\<close>

record world =
  OPENAI_API_KEY :: "string option"
  pa_initialize_err :: "error option"
  open_stream_err :: "error option"
  stream_start_err :: "error option"
  schedule :: "action list"
  stream_stop_err :: "error option"
  wav_io :: wav_env
  transcription_io :: transcribe_env
  chat_io :: generate_env

definition Getenv :: "string option \<Rightarrow> string" where
  "Getenv v = (case v of None \<Rightarrow> [] | Some s \<Rightarrow> s)"

definition tempFileName :: string where
  "tempFileName = ''temp.wav''"

text \<open>Lines 182-193: the calls up to the return, and the error returned.\<close>

definition run_generating :: "world \<Rightarrow> string \<Rightarrow> string \<Rightarrow> event list \<times> error option" where
  "run_generating w apiKey transcribedText =
     (case generateBashCommand (chat_io w) apiKey transcribedText of
        (evs, Inl e) \<Rightarrow>
          (SpinnerSuffix '' Generating command...'' # evs @ [SpinnerStop],
           Some (Errorf ''error generating command: '' e))
      | (evs, Inr generatedCommand) \<Rightarrow>
          (SpinnerSuffix '' Generating command...'' # evs
             @ [SpinnerStop, Stdout ([CHR 0x0A] @ TrimSpace generatedCommand @ [CHR 0x0A])],
           None))"

text \<open>
  Lines 167-193. The removal of the file is deferred on line 172, after the return of
  line 170: it is the first deferred call to run at a return from line 179 on.
\<close>

definition run_transcribing ::
  "world \<Rightarrow> string \<Rightarrow> int16 list \<Rightarrow> event list \<times> error option outcome" where
  "run_transcribing w apiKey recorded =
     (case writeWavFile (wav_io w) tempFileName recorded 1 44100 of
        (wevs, Panics) \<Rightarrow> (wevs, Panics)
      | (wevs, Dies) \<Rightarrow> (wevs, Dies)
      | (wevs, Returns (Some e)) \<Rightarrow> (wevs, Returns (Some (Errorf ''failed to write wav file: '' e)))
      | (wevs, Returns None) \<Rightarrow>
         (case transcribeAudio (transcription_io w) apiKey tempFileName of
            (tevs, Inl e) \<Rightarrow>
              (wevs @ SpinnerSuffix '' Transcribing audio...'' # tevs
                 @ [SpinnerStop, OsRemove tempFileName],
               Returns (Some (Errorf ''error transcribing audio: '' e)))
          | (tevs, Inr transcribedText) \<Rightarrow>
              (wevs @ SpinnerSuffix '' Transcribing audio...'' # tevs
                 @ fst (run_generating w apiKey transcribedText) @ [OsRemove tempFileName],
               Returns (snd (run_generating w apiKey transcribedText)))))"

text \<open>
  \<open>run\<close> (lines 92-194). The result is \<open>None\<close> when the schedule ends with the main
  goroutine still in the recording loop: \<open>run\<close> has not returned. The calls deferred on
  lines 103, 118 and 132 run at every return after them and when a panic unwinds,
  last deferred first; they do not run when the runtime dies.
\<close>

definition run :: "world \<Rightarrow> (event list \<times> error option outcome) option" where
  "run w =
     (let apiKey = Getenv (OPENAI_API_KEY w) in
      if apiKey = []
      then Some ([LoadDotenv],
                 Returns (Some (errorString ''OpenAI API key not found. Please set OPENAI_API_KEY in your environment or .env file'')))
      else
      (case pa_initialize_err w of
         Some e \<Rightarrow> Some ([LoadDotenv, PaInitialize],
                          Returns (Some (Errorf ''failed to initialize portaudio: '' e)))
       | None \<Rightarrow>
      (case open_stream_err w of
         Some e \<Rightarrow> Some ([LoadDotenv, PaInitialize, OpenDefaultStream, PaTerminate],
                          Returns (Some (Errorf ''failed to open audio stream: '' e)))
       | None \<Rightarrow>
      (case stream_start_err w of
         Some e \<Rightarrow> Some ([LoadDotenv, PaInitialize, OpenDefaultStream, StreamStart,
                           StreamClose, PaTerminate],
                          Returns (Some (Errorf ''failed to start audio stream: '' e)))
       | None \<Rightarrow>
      (let started = [LoadDotenv, PaInitialize, OpenDefaultStream, StreamStart,
                      SpinnerSuffix '' Recording'', SpinnerStart, StartWatchers];
           deferred = [SpinnerStop, StreamClose, PaTerminate];
           s = exec (schedule w) initial_state
       in case pc s of
            LoopHead \<Rightarrow> None
          | LoopBody \<Rightarrow> None
          | ReadFailed e \<Rightarrow>
              Some (started @ [SpinnerStop] @ deferred,
                    Returns (Some (Errorf ''error reading from audio stream: '' e)))
          | LoopExited \<Rightarrow>
             (case stream_stop_err w of
                Some e \<Rightarrow> Some (started @ [StreamStop] @ deferred,
                                 Returns (Some (Errorf ''failed to stop audio stream: '' e)))
              | None \<Rightarrow>
                 (case run_transcribing w apiKey (recordedData s) of
                    (evs, Dies) \<Rightarrow> Some (started @ [StreamStop] @ evs, Dies)
                  | (evs, r) \<Rightarrow> Some (started @ [StreamStop] @ evs @ deferred, r))))))))"

text \<open>
  \<open>main\<close> (lines 85-90), with the exit status of the process: 0 when \<open>run\<close> returns nil, 1
  after the print of line 87, 2 when the runtime ends the process.
\<close>

definition main :: "world \<Rightarrow> (event list \<times> int) option" where
  "main w =
     (case run w of
        None \<Rightarrow> None
      | Some (evs, Returns None) \<Rightarrow> Some (evs, 0)
      | Some (evs, Returns (Some err)) \<Rightarrow>
          Some (evs @ [Stdout (''An error occurred: '' @ Error err @ [CHR 0x0A])], 1)
      | Some (evs, Panics) \<Rightarrow> Some (evs, 2)
      | Some (evs, Dies) \<Rightarrow> Some (evs, 2))"

text \<open>The whole process: \<open>init\<close> (lines 73-83), then \<open>main\<close>.\<close>

definition init :: "event list" where
  "init = [Setenv ''JACK_NO_START_SERVER'' ''1'', SetJackErrorHandler, SetAlsaErrorHandler]"

definition program :: "world \<Rightarrow> (event list \<times> int) option" where
  "program w = (case main w of None \<Rightarrow> None | Some (evs, code) \<Rightarrow> Some (init @ evs, code))"

text \<open>The calls to portaudio and to its stream.\<close>

fun audio_call :: "event \<Rightarrow> bool" where
  "audio_call PaInitialize = True"
| "audio_call PaTerminate = True"
| "audio_call OpenDefaultStream = True"
| "audio_call StreamStart = True"
| "audio_call StreamStop = True"
| "audio_call StreamClose = True"
| "audio_call e = False"

text \<open>The calls of \<open>run\<close> up to line 165 when nothing fails.\<close>

definition started :: "event list" where
  "started = [LoadDotenv, PaInitialize, OpenDefaultStream, StreamStart,
              SpinnerSuffix '' Recording'', SpinnerStart, StartWatchers, StreamStop]"

section \<open>Concrete runs\<close>

text \<open>
  Inputs on which the definitions are evaluated: a run in which the user presses Enter
  before the first chunk is read and every call succeeds, parametrised by the two HTTP
  responses; response bodies with and without the expected members; a response with
  status 500; a run in which the disk is full when the samples are written; and a run
  in which one chunk of 1024 samples is read from the device and recorded before the
  user presses Enter.
\<close>

definition ok_response :: "json \<Rightarrow> Response" where
  "ok_response j = \<lparr>StatusCode = 200, Body = [], BodyJSON = Inr j\<rparr>"


definition sample_world :: "Response \<Rightarrow> Response \<Rightarrow> world" where
  "sample_world tresp cresp =
     \<lparr> OPENAI_API_KEY = Some ''sk-test'',
       pa_initialize_err = None, open_stream_err = None, stream_start_err = None,
       schedule = [StdinReadReturns, LoadFlag],
       stream_stop_err = None,
       wav_io = \<lparr>create_err = None, encoder_buffer = Allocated,
                  enc_write_err = None, enc_close_err = None\<rparr>,
       transcription_io =
         \<lparr> open_err = None, create_form_file_err = None,
           copy_result = Inr (wav_file_bytes [] 1 44100),
           write_field_err = None, writer_close_err = None, t_new_request_err = None,
           t_do = Inr tresp \<rparr>,
       chat_io = \<lparr> marshal_err = None, g_new_request_err = None, g_do = Inr cresp \<rparr> \<rparr>"

definition text_body :: json where
  "text_body = JObject [(''text'', JString ''list files'')]"

definition no_text_body :: json where
  "no_text_body = JObject [(''task'', JString ''transcribe''), (''language'', JString ''english'')]"

definition chat_body :: json where
  "chat_body = JObject [(''id'', JString ''chatcmpl-1''),
     (''choices'', JArray [JObject [(''index'', JNumber ''0''),
        (''message'', JObject [(''role'', JString ''assistant''), (''content'', JString '' ls -la '')])]])]"

definition no_choices_body :: json where
  "no_choices_body = JObject [(''choices'', JArray [])]"

definition disk_full_world :: world where
  "disk_full_world =
     (sample_world (ok_response text_body) (ok_response chat_body))
       \<lparr>wav_io := \<lparr>create_err = None, encoder_buffer = Allocated,
                   enc_write_err = Some (errorString ''write temp.wav: no space left on device''),
                   enc_close_err = None\<rparr>\<rparr>"

definition recorded_chunk :: "int16 list" where
  "recorded_chunk = replicate 1024 7"

definition recorded_world :: "Response \<Rightarrow> Response \<Rightarrow> world" where
  "recorded_world tresp cresp =
     \<lparr> OPENAI_API_KEY = Some ''sk-test'',
       pa_initialize_err = None, open_stream_err = None, stream_start_err = None,
       schedule = [LoadFlag, StreamRead \<lparr>written = recorded_chunk, read_err = None\<rparr>,
                   StdinReadReturns, LoadFlag],
       stream_stop_err = None,
       wav_io = \<lparr>create_err = None, encoder_buffer = Allocated,
                  enc_write_err = None, enc_close_err = None\<rparr>,
       transcription_io =
         \<lparr> open_err = None, create_form_file_err = None,
           copy_result = Inr (wav_file_bytes recorded_chunk 1 44100),
           write_field_err = None, writer_close_err = None, t_new_request_err = None,
           t_do = Inr tresp \<rparr>,
       chat_io = \<lparr> marshal_err = None, g_new_request_err = None, g_do = Inr cresp \<rparr> \<rparr>"

definition recorded_trace :: "string \<Rightarrow> event list \<Rightarrow> event list" where
  "recorded_trace userText rest =
     [Setenv ''JACK_NO_START_SERVER'' ''1'', SetJackErrorHandler, SetAlsaErrorHandler,
      LoadDotenv, PaInitialize, OpenDefaultStream, StreamStart,
      SpinnerSuffix '' Recording'', SpinnerStart, StartWatchers, StreamStop,
      OsCreate ''temp.wav'', WavWritten ''temp.wav'' (wav_file_bytes recorded_chunk 1 44100),
      FileClose ''temp.wav'', SpinnerSuffix '' Transcribing audio...'', OsOpen ''temp.wav'',
      HttpPost transcription_url ''Bearer sk-test''
        (Multipart ''temp.wav'' (wav_file_bytes recorded_chunk 1 44100) ''whisper-1''),
      BodyClose, FileClose ''temp.wav'', SpinnerSuffix '' Generating command...'',
      HttpPost chat_url ''Bearer sk-test'' (ChatJSON (chat_payload userText)),
      BodyClose, SpinnerStop] @ rest"

section \<open>Properties of the recording loop\<close>

lemma exec_append: "exec (as @ bs) s = exec bs (exec as s)"
  by (induction as arbitrary: s) simp_all

lemma length_store_chunk: "length (store_chunk ws buf) = length buf"
  by (simp add: store_chunk_def)

lemma store_chunk_Nil: "store_chunk [] buf = buf"
  by (simp add: store_chunk_def)

lemma step_flag: "stopRecording (step a s) = stopRecording s \<or> stopRecording (step a s) = 1"
  by (cases a) (simp_all add: Let_def split: option.split)

lemma step_flag_set: "stopRecording s \<noteq> 0 \<Longrightarrow> stopRecording (step a s) \<noteq> 0"
  using step_flag [of a s] by auto

lemma exec_flag_set: "stopRecording s \<noteq> 0 \<Longrightarrow> stopRecording (exec as s) \<noteq> 0"
  by (induction as arbitrary: s) (simp_all add: step_flag_set)

lemma step_in_buf_length: "length (in_buf (step a s)) = length (in_buf s)"
  by (cases a) (simp_all add: Let_def length_store_chunk split: option.split)

lemma exec_in_buf_length: "length (in_buf (exec as s)) = length (in_buf s)"
  by (induction as arbitrary: s) (simp_all add: step_in_buf_length)

lemma reachable_in_buf_length: "length (in_buf (exec as initial_state)) = framesPerChunk"
  by (simp add: exec_in_buf_length initial_state_def)

lemma step_whole_chunks:
  "length (in_buf s) = framesPerChunk \<Longrightarrow> framesPerChunk dvd length (recordedData s)
   \<Longrightarrow> framesPerChunk dvd length (recordedData (step a s))"
  by (cases a) (simp_all add: Let_def length_store_chunk split: option.split)

lemma exec_whole_chunks:
  "length (in_buf s) = framesPerChunk \<Longrightarrow> framesPerChunk dvd length (recordedData s)
   \<Longrightarrow> framesPerChunk dvd length (recordedData (exec as s))"
  by (induction as arbitrary: s) (simp_all add: step_whole_chunks step_in_buf_length)

lemma reachable_whole_chunks: "framesPerChunk dvd length (recordedData (exec as initial_state))"
  by (rule exec_whole_chunks) (simp_all add: initial_state_def)

lemma step_leaves_loop:
  assumes "in_loop s" and "\<not> in_loop (step a s)"
  shows "(a = LoadFlag \<and> pc s = LoopHead \<and> stopRecording s \<noteq> 0 \<and> pc (step a s) = LoopExited)
       \<or> (\<exists>r e. a = StreamRead r \<and> pc s = LoopBody \<and> read_err r = Some e \<and> e \<noteq> io_EOF
              \<and> pc (step a s) = ReadFailed e)"
  using assms
  by (cases a) (auto simp: in_loop_def Let_def split: if_splits option.splits)

text \<open>
  C8. The flag \<open>stopRecording\<close> starts at 0 (false). Every step of the system made of
  the recording loop and the two watcher goroutines either leaves the flag as it is or
  stores 1 in it, so a writer that comes second stores the value already there; and
  once the flag is non-zero in a reachable state it is non-zero in every state any
  further steps lead to.
\<close>

theorem cancellation_flag_never_reset:
  "stopRecording initial_state = 0
   \<and> (stopRecording (step a s) = stopRecording s \<or> stopRecording (step a s) = 1)
   \<and> (stopRecording (exec as initial_state) \<noteq> 0
        \<longrightarrow> stopRecording (exec (as @ bs) initial_state) \<noteq> 0)"
proof (intro conjI impI)
  show "stopRecording initial_state = 0"
    by (simp add: initial_state_def)
  show "stopRecording (step a s) = stopRecording s \<or> stopRecording (step a s) = 1"
    by (rule step_flag)
  assume "stopRecording (exec as initial_state) \<noteq> 0"
  then show "stopRecording (exec (as @ bs) initial_state) \<noteq> 0"
    by (simp add: exec_append exec_flag_set)
qed

theorem cancellation_flag_never_reset_witness:
  "stopRecording (exec [LoadFlag, StdinReadReturns] initial_state) \<noteq> 0
   \<and> stopRecording (exec ([LoadFlag, StdinReadReturns] @ [SignalReceived, LoadFlag]) initial_state) = 1"
  using cancellation_flag_never_reset
    [of StdinReadReturns initial_state "[LoadFlag, StdinReadReturns]" "[SignalReceived, LoadFlag]"]
  by (simp add: initial_state_def)

text \<open>
  C3. The main goroutine leaves the recording loop by exactly two steps: the load of
  line 153 finding the flag non-zero (the loop is then past, at line 162), or a
  \<open>stream.Read\<close> that returns an error other than \<open>io.EOF\<close> (line 156). And in every
  run from the initial state that has left the loop through the flag, the length of
  \<open>recordedData\<close> is a multiple of 1024.
\<close>

theorem capture_loop_exit_conditions:
  "(in_loop s \<and> \<not> in_loop (step a s) \<longrightarrow>
      (a = LoadFlag \<and> pc s = LoopHead \<and> stopRecording s \<noteq> 0 \<and> pc (step a s) = LoopExited)
    \<or> (\<exists>r e. a = StreamRead r \<and> pc s = LoopBody \<and> read_err r = Some e \<and> e \<noteq> io_EOF
           \<and> pc (step a s) = ReadFailed e))
   \<and> (pc (exec as initial_state) = LoopExited \<longrightarrow>
        length (recordedData (exec as initial_state)) mod 1024 = 0)"
proof (intro conjI impI)
  assume "in_loop s \<and> \<not> in_loop (step a s)"
  then show "(a = LoadFlag \<and> pc s = LoopHead \<and> stopRecording s \<noteq> 0 \<and> pc (step a s) = LoopExited)
    \<or> (\<exists>r e. a = StreamRead r \<and> pc s = LoopBody \<and> read_err r = Some e \<and> e \<noteq> io_EOF
           \<and> pc (step a s) = ReadFailed e)"
    using step_leaves_loop [of s a] by blast
next
  have "framesPerChunk dvd length (recordedData (exec as initial_state))"
    by (rule reachable_whole_chunks)
  then show "length (recordedData (exec as initial_state)) mod 1024 = 0"
    by (simp add: framesPerChunk_def mod_eq_0_iff_dvd)
qed

theorem capture_loop_exit_conditions_witness:
  "in_loop (exec [StdinReadReturns] initial_state)
   \<and> \<not> in_loop (step LoadFlag (exec [StdinReadReturns] initial_state))
   \<and> stopRecording (exec [StdinReadReturns] initial_state) \<noteq> 0
   \<and> pc (exec [LoadFlag, StreamRead \<lparr>written = replicate 1024 7, read_err = None\<rparr>,
               SignalReceived, LoadFlag] initial_state) = LoopExited
   \<and> length (recordedData
        (exec [LoadFlag, StreamRead \<lparr>written = replicate 1024 7, read_err = None\<rparr>,
               SignalReceived, LoadFlag] initial_state)) = 1024"
  using capture_loop_exit_conditions
    [of "exec [StdinReadReturns] initial_state" LoadFlag
        "[LoadFlag, StreamRead \<lparr>written = replicate 1024 7, read_err = None\<rparr>,
          SignalReceived, LoadFlag]"]
  by (simp add: initial_state_def in_loop_def framesPerChunk_def store_chunk_def Let_def)

text \<open>
  C9. In a run from the initial state that stands before the call of line 154, a
  \<open>stream.Read\<close> returning \<open>io.EOF\<close> is followed by the append of line 159 just as a
  read returning nil is: the whole chunk slice \<open>in\<close>, 1024 samples long, is appended to
  \<open>recordedData\<close>, which grows by exactly 1024, and the loop goes back to its head.
  The loop itself never writes to \<open>in\<close>: when the failed call stored nothing, the chunk
  appended is the one the read before it left there.
\<close>

theorem eof_read_still_appends_chunk:
  assumes "s = exec as initial_state" and "pc s = LoopBody"
    and "read_err r = Some io_EOF \<or> read_err r = None"
  shows "recordedData (step (StreamRead r) s) = recordedData s @ in_buf (step (StreamRead r) s)
       \<and> length (in_buf (step (StreamRead r) s)) = 1024
       \<and> length (recordedData (step (StreamRead r) s)) = length (recordedData s) + 1024
       \<and> pc (step (StreamRead r) s) = LoopHead
       \<and> (written r = [] \<longrightarrow> in_buf (step (StreamRead r) s) = in_buf s)"
proof -
  have len: "length (in_buf s) = 1024"
    using assms(1) reachable_in_buf_length [of as] by (simp add: framesPerChunk_def)
  from assms(3) show ?thesis
  proof
    assume "read_err r = Some io_EOF"
    with assms(2) len show ?thesis
      by (simp add: Let_def length_store_chunk store_chunk_Nil)
  next
    assume "read_err r = None"
    with assms(2) len show ?thesis
      by (simp add: Let_def length_store_chunk store_chunk_Nil)
  qed
qed

theorem eof_read_still_appends_chunk_witness:
  "pc (exec [LoadFlag] initial_state) = LoopBody
   \<and> recordedData (step (StreamRead \<lparr>written = [], read_err = Some io_EOF\<rparr>)
        (exec [LoadFlag] initial_state)) = replicate 1024 0
   \<and> pc (step (StreamRead \<lparr>written = [], read_err = Some io_EOF\<rparr>)
        (exec [LoadFlag] initial_state)) = LoopHead"
  using eof_read_still_appends_chunk
    [of "exec [LoadFlag] initial_state" "[LoadFlag]" "\<lparr>written = [], read_err = Some io_EOF\<rparr>"]
  by (simp add: initial_state_def framesPerChunk_def store_chunk_def Let_def)

section \<open>Properties of the WAV file\<close>

lemma rd16_le16: "rd16 (le16 w) = w"
  unfolding rd16_def le16_def
  by (simp, rule bit_word_eqI) (auto simp: bit_simps)

lemma rd32_le32: "rd32 (le32 w) = w"
proof (rule bit_word_eqI)
  fix n assume n: "n < LENGTH(32)"
  have c: "n < 8 \<or> (8 \<le> n \<and> n < 16) \<or> (16 \<le> n \<and> n < 24) \<or> (24 \<le> n \<and> n < 32)"
    using n by auto
  show "bit (rd32 (le32 w)) n = bit w n"
    using c by (auto simp: rd32_def le32_def bit_simps)
qed

lemmas header_unfold =
  wav_header_def tag_RIFF_def tag_WAVE_def tag_fmt_def tag_data_def le16_def le32_def

lemma length_wav_header: "length (wav_header r c n) = 44"
  by (simp add: header_unfold)

lemma header_fields:
  "take 4 (wav_header r c n @ d) = tag_RIFF"
  "take 4 (drop 4 (wav_header r c n @ d)) = le32 (of_nat (36 + n))"
  "take 4 (drop 8 (wav_header r c n @ d)) = tag_WAVE"
  "take 4 (drop 12 (wav_header r c n @ d)) = tag_fmt"
  "take 4 (drop 16 (wav_header r c n @ d)) = le32 16"
  "take 2 (drop 20 (wav_header r c n @ d)) = le16 1"
  "take 2 (drop 22 (wav_header r c n @ d)) = le16 (word_of_int c)"
  "take 4 (drop 24 (wav_header r c n @ d)) = le32 (word_of_int r)"
  "take 2 (drop 34 (wav_header r c n @ d)) = le16 16"
  "take 4 (drop 36 (wav_header r c n @ d)) = tag_data"
  "take 4 (drop 40 (wav_header r c n @ d)) = le32 (of_nat n)"
  "drop 44 (wav_header r c n @ d) = d"
  by (simp_all add: header_unfold)

lemma length_pcm16_data: "length (pcm16_data c xs) = 2 * length (whole_frames c xs)"
  unfolding pcm16_data_def by (induction "whole_frames c xs" arbitrary: xs) (simp_all add: le16_def length_concat comp_def sum_list_triv)

lemma unat_of_nat_32: "n < 2 ^ 32 \<Longrightarrow> unat (of_nat n :: 32 word) = n"
  by (simp add: unat_of_nat)

lemma wav_decode_encode:
  assumes "length (pcm16_data c xs) + 36 < 2 ^ 32"
  shows "wav_decode (wav_encode r c xs) =
           Some \<lparr> NumChannels = unat (word_of_int c :: 16 word),
                   SampleRate = unat (word_of_int r :: 32 word),
                   BitsPerSample = 16,
                   Samples = rd_samples (pcm16_data c xs) \<rparr>"
proof -
  let ?d = "pcm16_data c xs"
  have ev: "even (length ?d)"
    by (simp add: length_pcm16_data)
  have a: "unat (36 + of_nat (length ?d) :: 32 word) = 36 + length ?d"
    using assms unat_of_nat_32 [of "36 + length ?d"] by simp
  have b: "unat (of_nat (length ?d) :: 32 word) = length ?d"
    using assms by (intro unat_of_nat_32) simp
  show ?thesis
    unfolding wav_decode_def wav_encode_def
    apply (simp only: header_fields)
    using ev
    apply (simp add: length_wav_header rd32_le32 rd16_le16 a b)
    done
qed

lemma rd_samples_le16:
  "rd_samples (concat (map (\<lambda>v. le16 (word_of_int v)) (int16ToIntSlice xs))) = xs"
  unfolding int16ToIntSlice_def
  by (induction xs) (simp_all add: rd16_le16 [unfolded le16_def] le16_def)

lemma whole_frames_all: "0 < c \<Longrightarrow> nat c dvd length xs \<Longrightarrow> whole_frames c xs = xs"
  by (auto simp: whole_frames_def)

lemma unat_chan:
  assumes "0 \<le> c" and "c < 65536"
  shows "unat (word_of_int c :: 16 word) = nat c"
proof -
  have "(word_of_int c :: 16 word) = of_nat (nat c)"
    using assms by (simp add: of_nat_nat)
  moreover have "nat c < 2 ^ 16"
    using assms by simp
  ultimately show ?thesis
    by (simp add: unat_of_nat)
qed

lemma unat_rate:
  assumes "0 \<le> r" and "r < 2 ^ 32"
  shows "unat (word_of_int r :: 32 word) = nat r"
proof -
  have "(word_of_int r :: 32 word) = of_nat (nat r)"
    using assms by (simp add: of_nat_nat)
  moreover have "nat r < 2 ^ 32"
    using assms by (simp add: nat_less_iff)
  ultimately show ?thesis
    by (simp add: unat_of_nat)
qed


lemma length_whole_frames_le: "length (whole_frames c xs) \<le> length xs"
  by (simp add: whole_frames_def)

lemma wav_partial_frame:
  "wav_decode (wav_file_bytes [1, 2, 3] 2 44100) =
     Some \<lparr>NumChannels = 2, SampleRate = 44100, BitsPerSample = 16, Samples = [1, 2]\<rparr>"
proof -
  let ?xs = "int16ToIntSlice [1, 2, 3]"
  have wf: "whole_frames 2 ?xs = int16ToIntSlice [1, 2]"
    by (simp add: whole_frames_def int16ToIntSlice_def)
  have data: "rd_samples (pcm16_data 2 ?xs) = [1, 2]"
    unfolding pcm16_data_def wf by (rule rd_samples_le16)
  have "length (whole_frames 2 ?xs) \<le> length ?xs"
    by (rule length_whole_frames_le)
  then have "length (pcm16_data 2 ?xs) + 36 < 2 ^ 32"
    unfolding length_pcm16_data by (simp add: int16ToIntSlice_def)
  from wav_decode_encode [OF this, of 44100] show ?thesis
    unfolding wav_file_bytes_def data by simp
qed

lemma wav_channels_wrap:
  "wav_decode (wav_file_bytes [] 65536 1) =
     Some \<lparr>NumChannels = 0, SampleRate = 1, BitsPerSample = 16, Samples = []\<rparr>"
proof -
  have "length (pcm16_data 65536 (int16ToIntSlice [])) + 36 < 2 ^ 32"
    by (simp add: length_pcm16_data whole_frames_def int16ToIntSlice_def)
  from wav_decode_encode [OF this, of 1] show ?thesis
    by (simp add: wav_file_bytes_def pcm16_data_def whole_frames_def int16ToIntSlice_def)
qed

lemma wav_size_wrap:
  "wav_decode (wav_file_bytes (replicate 2147483648 0) 1 44100) = None"
proof -
  let ?xs = "int16ToIntSlice (replicate 2147483648 0)"
  let ?d = "pcm16_data 1 ?xs"
  have l: "length ?d = 4294967296"
    by (simp add: length_pcm16_data whole_frames_def int16ToIntSlice_def)
  have "rd32 (take 4 (drop 40 (wav_encode 44100 1 ?xs))) = 0"
    unfolding wav_encode_def header_fields rd32_le32 l by simp
  moreover have "length (wav_encode 44100 1 ?xs) - 44 = 4294967296"
    by (simp add: wav_encode_def length_wav_header l)
  ultimately show ?thesis
    unfolding wav_file_bytes_def wav_decode_def by simp
qed

lemma go_div_nonneg: "0 \<le> a \<Longrightarrow> 0 < b \<Longrightarrow> go_div a b = a div b"
  by (simp add: go_div_def sgn_if)

lemma int64_small: "0 \<le> i \<Longrightarrow> i < 2 ^ 63 \<Longrightarrow> int64 i = i"
  unfolding int64_def
  by (simp add: signed_take_bit_int_eq_self sint_sbintrunc' flip: sint_sbintrunc)

lemma NewEncoder_cap_in_range:
  assumes "0 < R" and "R \<le> 1000000000" and "0 \<le> C" and "C \<le> 65535"
  shows "\<exists>cap. NewEncoder_cap R C = Some cap \<and> 0 \<le> cap"
proof -
  let ?ns = "1000000000 div R"
  have ns: "go_div 1000000000 R = ?ns"
    using assms(1) by (simp add: go_div_nonneg)
  have pos: "0 < ?ns"
    using assms(1,2) by (simp add: pos_imp_zdiv_pos_iff)
  let ?n = "60000000000 div ?ns"
  have n: "go_div 60000000000 ?ns = ?n"
    using pos by (simp add: go_div_nonneg)
  have n0: "0 \<le> ?n"
    using pos by (simp add: pos_imp_zdiv_nonneg_iff)
  have n1: "?n \<le> 60000000000"
    by (rule int_div_le_self) simp
  have "?n * 2 * C \<le> 60000000000 * 2 * 65535"
    using n0 n1 assms(3,4) by (intro mult_mono) simp_all
  then have hi: "?n * 2 * C < 2 ^ 63"
    by simp
  have lo: "0 \<le> ?n * 2 * C"
    using n0 assms(3) by simp
  have "NewEncoder_cap R C = Some (?n * 2 * C)"
    using assms(1) pos by (simp add: NewEncoder_cap_def ns n Let_def int64_small [OF lo hi])
  with lo show ?thesis by blast
qed

lemma writeWavFile_ok:
  assumes "0 < R" and "R \<le> 1000000000" and "0 \<le> C" and "C \<le> 65535"
  shows "writeWavFile \<lparr>create_err = None, encoder_buffer = Allocated,
                        enc_write_err = None, enc_close_err = None\<rparr> f samples C R =
           ([OsCreate f, WavWritten f (wav_file_bytes samples C R), FileClose f], Returns None)"
proof -
  from NewEncoder_cap_in_range [OF assms] obtain cap where
    "NewEncoder_cap R C = Some cap" "0 \<le> cap" by blast
  then show ?thesis
    by (simp add: writeWavFile_def)
qed

lemma NewEncoder_divides_by_zero: "NewEncoder_cap 2000000000 1 = None"
  by (simp add: NewEncoder_cap_def go_div_def)

lemma NewEncoder_cap_run: "NewEncoder_cap 44100 1 = Some 5292170"
  by (simp add: NewEncoder_cap_def go_div_def int64_small)

lemma NewEncoder_cap_slow: "NewEncoder_cap 1 65536 = Some 7864320"
  by (simp add: NewEncoder_cap_def go_div_def int64_small)

text \<open>
  C2, as amended. For a channel count C from 1 to 65535, a sample rate R from 1 to
  10^9 and a sequence of N samples that is a whole number of frames (C divides N) and
  fits the 32-bit size fields (2 N + 36 < 2^32), writeWavFile, when its calls to the
  file succeed and the encoder's buffer can be allocated, returns nil having written a
  file that is read back as C channels, sample rate R and the very N samples. For the
  empty sequence the file is the 44-byte header alone, with data length 0.
\<close>

theorem wav_round_trip:
  assumes "1 \<le> C" and "C \<le> 65535" and "0 < R" and "R \<le> 1000000000"
    and "2 * length samples + 36 < 2 ^ 32" and "nat C dvd length samples"
  shows "writeWavFile \<lparr>create_err = None, encoder_buffer = Allocated,
                        enc_write_err = None, enc_close_err = None\<rparr> f samples C R =
           ([OsCreate f, WavWritten f (wav_file_bytes samples C R), FileClose f], Returns None)
       \<and> wav_decode (wav_file_bytes samples C R) =
           Some \<lparr>NumChannels = nat C, SampleRate = nat R, BitsPerSample = 16, Samples = samples\<rparr>
       \<and> wav_file_bytes [] C R = wav_header R C 0
       \<and> length (wav_header R C 0) = 44
       \<and> rd32 (take 4 (drop 40 (wav_header R C 0))) = 0"
proof -
  have wf: "whole_frames C (int16ToIntSlice samples) = int16ToIntSlice samples"
    using assms(1,6) by (intro whole_frames_all) (simp_all add: int16ToIntSlice_def)
  have len: "length (pcm16_data C (int16ToIntSlice samples)) + 36 < 2 ^ 32"
    using assms(5) unfolding length_pcm16_data wf by (simp add: int16ToIntSlice_def)
  have data: "rd_samples (pcm16_data C (int16ToIntSlice samples)) = samples"
    unfolding pcm16_data_def wf by (rule rd_samples_le16)
  have "wav_decode (wav_file_bytes samples C R) =
           Some \<lparr>NumChannels = nat C, SampleRate = nat R, BitsPerSample = 16, Samples = samples\<rparr>"
    unfolding wav_file_bytes_def
    using assms(1-4) by (simp add: wav_decode_encode [OF len] data unat_chan unat_rate)
  moreover have "wav_file_bytes [] C R = wav_header R C 0"
    by (simp add: wav_file_bytes_def wav_encode_def pcm16_data_def whole_frames_def int16ToIntSlice_def)
  moreover have "rd32 (take 4 (drop 40 (wav_header R C 0))) = 0"
    using header_fields(11) [of R C 0 "[]"] by (simp add: rd32_le32)
  moreover have "writeWavFile \<lparr>create_err = None, encoder_buffer = Allocated,
                        enc_write_err = None, enc_close_err = None\<rparr> f samples C R =
           ([OsCreate f, WavWritten f (wav_file_bytes samples C R), FileClose f], Returns None)"
    using assms(1-4) by (intro writeWavFile_ok) simp_all
  ultimately show ?thesis
    by (simp add: length_wav_header)
qed

theorem wav_round_trip_witness:
  "(1::int) \<le> 1 \<and> (1::int) \<le> 65535 \<and> (0::int) < 44100 \<and> (44100::int) \<le> 1000000000
   \<and> 2 * length [1, - 2, 3 :: int16] + 36 < 2 ^ 32 \<and> nat 1 dvd length [1, - 2, 3 :: int16]
   \<and> writeWavFile \<lparr>create_err = None, encoder_buffer = Allocated,
                     enc_write_err = None, enc_close_err = None\<rparr> ''temp.wav'' [1, - 2, 3] 1 44100 =
         ([OsCreate ''temp.wav'', WavWritten ''temp.wav'' (wav_file_bytes [1, - 2, 3] 1 44100),
           FileClose ''temp.wav''], Returns None)
   \<and> wav_decode (wav_file_bytes [1, - 2, 3] 1 44100) =
         Some \<lparr>NumChannels = 1, SampleRate = 44100, BitsPerSample = 16, Samples = [1, - 2, 3]\<rparr>"
  using wav_round_trip [of 1 44100 "[1, - 2, 3]" "''temp.wav''"] by simp

text \<open>
  The claim C2 as stated, for every channel count of at least 1, every positive sample
  rate and every sample count, fails, every call to the file succeeding and the
  encoder's buffer being allocated. The three samples of a two-channel sequence are
  written and read back as two. At a sample rate of 2 000 000 000 a sample lasts 0
  nanoseconds and \<open>wav.NewEncoder\<close> panics dividing by it: the file is created and
  closed empty, nothing is written. A channel count of 65536 (at a sample rate of 1,
  where the buffer is of 7 864 320 bytes) is written as 0 and read back as 0. A
  sequence of 2^31 samples is written with a data length of 0 in its header, and is
  not read back.
\<close>

theorem wav_round_trip_counterexample:
  "writeWavFile \<lparr>create_err = None, encoder_buffer = Allocated,
                  enc_write_err = None, enc_close_err = None\<rparr> ''temp.wav'' [1, 2, 3] 2 44100 =
     ([OsCreate ''temp.wav'', WavWritten ''temp.wav'' (wav_file_bytes [1, 2, 3] 2 44100),
       FileClose ''temp.wav''], Returns None)
   \<and> wav_decode (wav_file_bytes [1, 2, 3] 2 44100) =
     Some \<lparr>NumChannels = 2, SampleRate = 44100, BitsPerSample = 16, Samples = [1, 2]\<rparr>
   \<and> writeWavFile \<lparr>create_err = None, encoder_buffer = Allocated,
                  enc_write_err = None, enc_close_err = None\<rparr> ''temp.wav'' [] 1 2000000000 =
     ([OsCreate ''temp.wav'', FileClose ''temp.wav''], Panics)
   \<and> writeWavFile \<lparr>create_err = None, encoder_buffer = Allocated,
                  enc_write_err = None, enc_close_err = None\<rparr> ''temp.wav'' [] 65536 1 =
     ([OsCreate ''temp.wav'', WavWritten ''temp.wav'' (wav_file_bytes [] 65536 1),
       FileClose ''temp.wav''], Returns None)
   \<and> wav_decode (wav_file_bytes [] 65536 1) =
     Some \<lparr>NumChannels = 0, SampleRate = 1, BitsPerSample = 16, Samples = []\<rparr>
   \<and> writeWavFile \<lparr>create_err = None, encoder_buffer = Allocated,
                  enc_write_err = None, enc_close_err = None\<rparr> ''temp.wav''
       (replicate 2147483648 0) 1 44100 =
     ([OsCreate ''temp.wav'',
       WavWritten ''temp.wav'' (wav_file_bytes (replicate 2147483648 0) 1 44100),
       FileClose ''temp.wav''], Returns None)
   \<and> wav_decode (wav_file_bytes (replicate 2147483648 0) 1 44100) = None"
  using wav_partial_frame wav_channels_wrap wav_size_wrap
    writeWavFile_ok [of 44100 2 "''temp.wav''" "[1, 2, 3]"]
    writeWavFile_ok [of 44100 1 "''temp.wav''" "replicate 2147483648 0"]
    NewEncoder_divides_by_zero NewEncoder_cap_slow
  by (simp add: writeWavFile_def)

section \<open>Properties of \<open>strings.TrimSpace\<close> and of the decoding\<close>

lemma leading_space_None_iff: "leading_space s = None \<longleftrightarrow> (\<forall>e \<in> set space_encodings. \<not> prefix e s)"
  by (auto simp: leading_space_def find_None_iff)

lemma trailing_space_None_iff: "trailing_space s = None \<longleftrightarrow> (\<forall>e \<in> set space_encodings. \<not> suffix e s)"
  by (auto simp: trailing_space_def find_None_iff)

lemma leading_space_SomeD: "leading_space s = Some e \<Longrightarrow> e \<in> set space_encodings \<and> prefix e s"
  by (auto simp: leading_space_def find_Some_iff)

lemma trailing_space_SomeD: "trailing_space s = Some e \<Longrightarrow> e \<in> set space_encodings \<and> suffix e s"
  by (auto simp: trailing_space_def find_Some_iff)

lemma TrimLeft_no_leading_space: "leading_space (TrimLeft s) = None"
  by (induction s rule: TrimLeft.induct) (subst TrimLeft.simps, simp split: option.split)

lemma TrimRight_no_trailing_space: "trailing_space (TrimRight s) = None"
  by (induction s rule: TrimRight.induct) (subst TrimRight.simps, simp split: option.split)

lemma whitespace_append: "whitespace a \<Longrightarrow> whitespace b \<Longrightarrow> whitespace (a @ b)"
  by (induction a rule: whitespace.induct) (auto intro: whitespace.intros)

lemma whitespace_rune: "e \<in> set space_encodings \<Longrightarrow> whitespace e"
  using whitespace.rune [OF _ whitespace.empty] by simp

lemma TrimLeft_removes_whitespace: "\<exists>l. s = l @ TrimLeft s \<and> whitespace l"
proof (induction s rule: TrimLeft.induct)
  case (1 s)
  show ?case
  proof (cases "leading_space s")
    case None
    then have "TrimLeft s = s" by (subst TrimLeft.simps) simp
    then show ?thesis using whitespace.empty by auto
  next
    case (Some e)
    then have e: "e \<in> set space_encodings" "prefix e s"
      using leading_space_SomeD by blast+
    from Some have t: "TrimLeft s = TrimLeft (drop (length e) s)"
      by (subst TrimLeft.simps) simp
    from 1 [OF Some] obtain l where l: "drop (length e) s = l @ TrimLeft (drop (length e) s)" "whitespace l"
      by blast
    from e(2) have "s = e @ drop (length e) s"
      by (auto simp: prefix_def)
    with l t have "s = (e @ l) @ TrimLeft s" by simp
    moreover have "whitespace (e @ l)" using e(1) l(2) by (rule whitespace.rune)
    ultimately show ?thesis by blast
  qed
qed

lemma TrimRight_removes_whitespace: "\<exists>r. s = TrimRight s @ r \<and> whitespace r \<and> prefix (TrimRight s) s"
proof (induction s rule: TrimRight.induct)
  case (1 s)
  show ?case
  proof (cases "trailing_space s")
    case None
    then have "TrimRight s = s" by (subst TrimRight.simps) simp
    then show ?thesis using whitespace.empty by auto
  next
    case (Some e)
    then have e: "e \<in> set space_encodings" "suffix e s"
      using trailing_space_SomeD by blast+
    let ?s' = "take (length s - length e) s"
    from Some have t: "TrimRight s = TrimRight ?s'"
      by (subst TrimRight.simps) simp
    from 1 [OF Some] obtain r where r: "?s' = TrimRight ?s' @ r" "whitespace r"
      by blast
    from e(2) have s: "s = ?s' @ e"
      by (auto simp: suffix_def)
    have "s = TrimRight s @ (r @ e)"
      using r(1) s t by (metis append.assoc)
    moreover have "whitespace (r @ e)"
      using r(2) whitespace_rune [OF e(1)] by (rule whitespace_append)
    ultimately show ?thesis by (metis prefixI)
  qed
qed

lemma leading_space_prefix:
  "leading_space s = None \<Longrightarrow> prefix t s \<Longrightarrow> leading_space t = None"
  unfolding leading_space_None_iff by (meson prefix_order.trans)

lemma TrimSpace_spec:
  "leading_space (TrimSpace s) = None \<and> trailing_space (TrimSpace s) = None
   \<and> (\<exists>l r. s = l @ TrimSpace s @ r \<and> whitespace l \<and> whitespace r)"
proof -
  obtain l where l: "s = l @ TrimLeft s" "whitespace l"
    using TrimLeft_removes_whitespace by blast
  obtain r where r: "TrimLeft s = TrimRight (TrimLeft s) @ r" "whitespace r"
    "prefix (TrimRight (TrimLeft s)) (TrimLeft s)"
    using TrimRight_removes_whitespace by blast
  have "leading_space (TrimSpace s) = None"
    unfolding TrimSpace_def using TrimLeft_no_leading_space r(3) by (rule leading_space_prefix)
  moreover have "trailing_space (TrimSpace s) = None"
    unfolding TrimSpace_def by (rule TrimRight_no_trailing_space)
  moreover have "s = l @ TrimSpace s @ r"
    unfolding TrimSpace_def using l(1) r(1) by simp
  ultimately show ?thesis using l(2) r(2) by blast
qed

lemma TrimSpace_example: "TrimSpace '' ls -la '' = ''ls -la''"
  by code_simp

lemma object_into_no_member: "members name kvs = [] \<Longrightarrow> object_into name dec kvs cur = Inr cur"
  by (induction kvs) (auto simp: members_def split: if_splits)

lemma object_into_one_member:
  "members name kvs = [v] \<Longrightarrow> object_into name dec kvs cur = dec v cur"
proof (induction kvs)
  case Nil
  then show ?case by (simp add: members_def)
next
  case (Cons kv kvs)
  obtain k x where kv: "kv = (k, x)" by (cases kv)
  show ?case
  proof (cases "EqualFold k name")
    case True
    with Cons.prems kv have "x = v" and "members name kvs = []"
      by (simp_all add: members_def)
    then show ?thesis
      using True kv by (simp add: object_into_no_member split: sum.split)
  next
    case False
    with Cons.prems kv have "members name kvs = [v]"
      by (simp add: members_def)
    then show ?thesis
      using False kv Cons.IH by simp
  qed
qed

lemma decode_choice_conforming:
  "choice_content x = Some s \<Longrightarrow> decode_choice x c = Inr \<lparr>Message = \<lparr>Content = s\<rparr>\<rparr>"
  by (cases x)
     (auto simp: object_into_one_member split: list.splits json.splits)

lemma decode_elements_conforming:
  "list_all (\<lambda>x. choice_content x \<noteq> None) xs \<Longrightarrow>
   decode_elements xs storage =
     Inr (map (\<lambda>x. \<lparr>Message = \<lparr>Content = the (choice_content x)\<rparr>\<rparr>) xs)"
  by (induction xs arbitrary: storage) (auto simp: decode_choice_conforming)

lemma decode_chat_conforming:
  "chat_choices j = Some cs \<Longrightarrow>
   decode_chat j \<lparr>Choices = []\<rparr> = Inr \<lparr>Choices = map (\<lambda>c. \<lparr>Message = \<lparr>Content = c\<rparr>\<rparr>) cs\<rparr>"
  by (cases j)
     (auto simp: object_into_one_member decode_elements_conforming comp_def
           split: list.splits json.splits if_splits)

section \<open>Properties of the clients and of \<open>run\<close>\<close>

lemma stdout_append: "stdout (xs @ ys) = stdout xs @ stdout ys"
  by (induction xs rule: stdout.induct) simp_all

lemma urls_differ: "transcription_url \<noteq> chat_url"
  by (simp add: transcription_url_def chat_url_def)

lemma writeWavFile_events:
  "stdout (fst (writeWavFile env f xs c r)) = []"
  "\<not> is_HttpPost e \<or> e \<notin> set (fst (writeWavFile env f xs c r))"
  by (auto simp: writeWavFile_def split: option.splits buffer.splits)

lemma transcribeAudio_events:
  "stdout (fst (transcribeAudio env k f)) = []"
  "HttpPost chat_url a p \<notin> set (fst (transcribeAudio env k f))"
  using urls_differ
  by (auto simp: transcribeAudio_def Let_def split: option.splits sum.splits)



lemma generateBashCommand_stdout: "stdout (fst (generateBashCommand env k t)) = []"
  by (auto simp: generateBashCommand_def Let_def split: option.splits sum.splits list.splits)

lemma generateBashCommand_urls:
  "HttpPost transcription_url a p \<notin> set (fst (generateBashCommand env k t))"
  using urls_differ
  by (auto simp: generateBashCommand_def Let_def split: option.splits sum.splits list.splits)



lemma generate_post:
  "marshal_err env = None \<Longrightarrow> g_new_request_err env = None \<Longrightarrow>
   HttpPost chat_url (''Bearer '' @ k) (ChatJSON (chat_payload t)) \<in> set (fst (generateBashCommand env k t))"
  by (auto simp: generateBashCommand_def Let_def split: sum.splits list.splits)

lemma generate_ok:
  assumes "marshal_err env = None" and "g_new_request_err env = None"
    and "g_do env = Inr resp" and "StatusCode resp = 200" and "BodyJSON resp = Inr body"
    and "chat_choices body = Some (content # others)"
  shows "generateBashCommand env k t =
           ([HttpPost chat_url (''Bearer '' @ k) (ChatJSON (chat_payload t)), BodyClose], Inr content)"
  using assms(1-5) decode_chat_conforming [OF assms(6)]
  by (simp add: generateBashCommand_def Let_def)

lemma generate_no_choices:
  assumes "marshal_err env = None" and "g_new_request_err env = None"
    and "g_do env = Inr resp" and "StatusCode resp = 200" and "BodyJSON resp = Inr (JObject kvs)"
    and "members ''choices'' kvs = [JArray []]"
  shows "generateBashCommand env k t =
           ([HttpPost chat_url (''Bearer '' @ k) (ChatJSON (chat_payload t)), BodyClose],
            Inl (errorString ''no choices returned from chat completion''))"
  using assms
  by (simp add: generateBashCommand_def Let_def object_into_one_member)

lemma transcribe_no_text:
  assumes "open_err env = None" and "create_form_file_err env = None"
    and "copy_result env = Inr bytes" and "write_field_err env = None"
    and "writer_close_err env = None" and "t_new_request_err env = None"
    and "t_do env = Inr resp" and "StatusCode resp = 200"
    and "BodyJSON resp = Inr (JObject kvs)" and "members ''text'' kvs = []"
  shows "transcribeAudio env k f =
           ([OsOpen f, HttpPost transcription_url (''Bearer '' @ k) (Multipart (Base f) bytes ''whisper-1''),
             BodyClose, FileClose f], Inr [])"
  using assms
  by (simp add: transcribeAudio_def Let_def object_into_no_member)

lemma writeWavFile_run:
  assumes "create_err env = None" and "encoder_buffer env = Allocated"
    and "enc_write_err env = None" and "enc_close_err env = None"
  shows "writeWavFile env f xs 1 44100 =
           ([OsCreate f, WavWritten f (wav_file_bytes xs 1 44100), FileClose f], Returns None)"
  using assms by (simp add: writeWavFile_def NewEncoder_cap_run)

lemma stdout_started: "stdout (init @ started) = []"
  by (simp add: init_def started_def)

text \<open>
  A run whose recording is ended by the flag and whose calls succeed up to the
  transcription returns, and \<open>main\<close> exits: the calls of the whole process and its exit
  status, from what transcribeAudio and generateBashCommand do.
\<close>

lemma program_after_recording:
  assumes "OPENAI_API_KEY w = Some k" and "k \<noteq> []"
    and "pa_initialize_err w = None" and "open_stream_err w = None" and "stream_start_err w = None"
    and "pc (exec (schedule w) initial_state) = LoopExited"
    and "stream_stop_err w = None"
    and "create_err (wav_io w) = None" and "encoder_buffer (wav_io w) = Allocated"
    and "enc_write_err (wav_io w) = None" and "enc_close_err (wav_io w) = None"
    and "transcribeAudio (transcription_io w) k tempFileName = (tevs, Inr userText)"
    and "generateBashCommand (chat_io w) k userText = (gevs, g)"
  shows "program w =
           Some (init @ started
                   @ [OsCreate tempFileName,
                      WavWritten tempFileName
                        (wav_file_bytes (recordedData (exec (schedule w) initial_state)) 1 44100),
                      FileClose tempFileName, SpinnerSuffix '' Transcribing audio...'']
                   @ tevs @ SpinnerSuffix '' Generating command...'' # gevs
                   @ (case g of
                        Inl e \<Rightarrow>
                          [SpinnerStop, OsRemove tempFileName, SpinnerStop, StreamClose, PaTerminate,
                           Stdout (''An error occurred: ''
                                   @ Error (Errorf ''error generating command: '' e) @ [CHR 0x0A])]
                      | Inr c \<Rightarrow>
                          [SpinnerStop, Stdout ([CHR 0x0A] @ TrimSpace c @ [CHR 0x0A]),
                           OsRemove tempFileName, SpinnerStop, StreamClose, PaTerminate]),
                 case g of Inl e \<Rightarrow> 1 | Inr c \<Rightarrow> 0)"
proof -
  let ?s = "exec (schedule w) initial_state"
  have key: "Getenv (OPENAI_API_KEY w) = k"
    using assms(1) by (simp add: Getenv_def)
  have wr: "writeWavFile (wav_io w) tempFileName (recordedData ?s) 1 44100 =
              ([OsCreate tempFileName, WavWritten tempFileName (wav_file_bytes (recordedData ?s) 1 44100),
                FileClose tempFileName], Returns None)"
    using assms(8-11) by (rule writeWavFile_run)
  show ?thesis
  proof (cases g)
    case (Inl e)
    have "run_transcribing w k (recordedData ?s) =
            ([OsCreate tempFileName, WavWritten tempFileName (wav_file_bytes (recordedData ?s) 1 44100),
              FileClose tempFileName, SpinnerSuffix '' Transcribing audio...'']
               @ tevs @ SpinnerSuffix '' Generating command...'' # gevs
               @ [SpinnerStop, OsRemove tempFileName],
             Returns (Some (Errorf ''error generating command: '' e)))"
      by (simp add: run_transcribing_def wr assms(12,13) run_generating_def Inl)
    then have "run w =
            Some (started
               @ [OsCreate tempFileName, WavWritten tempFileName (wav_file_bytes (recordedData ?s) 1 44100),
                  FileClose tempFileName, SpinnerSuffix '' Transcribing audio...'']
               @ tevs @ SpinnerSuffix '' Generating command...'' # gevs
               @ [SpinnerStop, OsRemove tempFileName, SpinnerStop, StreamClose, PaTerminate],
             Returns (Some (Errorf ''error generating command: '' e)))"
      using assms(2-7) by (simp add: run_def key Let_def started_def del: exec.simps)
    then show ?thesis
      by (simp add: program_def main_def Inl)
  next
    case (Inr c)
    have "run_transcribing w k (recordedData ?s) =
            ([OsCreate tempFileName, WavWritten tempFileName (wav_file_bytes (recordedData ?s) 1 44100),
              FileClose tempFileName, SpinnerSuffix '' Transcribing audio...'']
               @ tevs @ SpinnerSuffix '' Generating command...'' # gevs
               @ [SpinnerStop, Stdout ([CHR 0x0A] @ TrimSpace c @ [CHR 0x0A]), OsRemove tempFileName],
             Returns None)"
      by (simp add: run_transcribing_def wr assms(12,13) run_generating_def Inr)
    then have "run w =
            Some (started
               @ [OsCreate tempFileName, WavWritten tempFileName (wav_file_bytes (recordedData ?s) 1 44100),
                  FileClose tempFileName, SpinnerSuffix '' Transcribing audio...'']
               @ tevs @ SpinnerSuffix '' Generating command...'' # gevs
               @ [SpinnerStop, Stdout ([CHR 0x0A] @ TrimSpace c @ [CHR 0x0A]), OsRemove tempFileName,
                  SpinnerStop, StreamClose, PaTerminate],
             Returns None)"
      using assms(2-7) by (simp add: run_def key Let_def started_def del: exec.simps)
    then show ?thesis
      by (simp add: program_def main_def Inr)
  qed
qed

lemma WavWritten_only_by_writeWavFile:
  "WavWritten f bs \<notin> set (fst (transcribeAudio env k p))"
  "WavWritten f bs \<notin> set (fst (generateBashCommand genv k t))"
  "WavWritten f bs \<notin> set (fst (run_generating w k t))"
  by (auto simp: transcribeAudio_def generateBashCommand_def run_generating_def Let_def
           split: option.splits sum.splits list.splits prod.splits)

lemma writeWavFile_written:
  "WavWritten g bs \<in> set (fst (writeWavFile env f xs c r)) \<Longrightarrow>
   snd (writeWavFile env f xs c r) = Returns None"
  by (auto simp: writeWavFile_def split: option.splits buffer.splits if_splits)

lemma run_transcribing_written:
  assumes "WavWritten f bs \<in> set (fst (run_transcribing w k rec))"
  shows "\<exists>before r. run_transcribing w k rec = (before @ [OsRemove tempFileName], Returns r)
           \<and> WavWritten f bs \<in> set before"
proof -
  obtain wevs wr where wv: "writeWavFile (wav_io w) tempFileName rec 1 44100 = (wevs, wr)"
    by (cases "writeWavFile (wav_io w) tempFileName rec 1 44100")
  obtain tevs tr where tv: "transcribeAudio (transcription_io w) k tempFileName = (tevs, tr)"
    by (cases "transcribeAudio (transcription_io w) k tempFileName")
  have ok: "wr = Returns None"
  proof (rule ccontr)
    assume no: "wr \<noteq> Returns None"
    then have "fst (run_transcribing w k rec) = wevs"
      by (cases wr) (auto simp: run_transcribing_def wv split: option.splits)
    with assms have "WavWritten f bs \<in> set wevs"
      by simp
    with writeWavFile_written [of f bs "wav_io w" tempFileName rec 1 44100] wv no
    show False by simp
  qed
  show ?thesis
  proof (cases tr)
    case (Inl e)
    have "run_transcribing w k rec =
            ((wevs @ SpinnerSuffix '' Transcribing audio...'' # tevs @ [SpinnerStop])
               @ [OsRemove tempFileName],
             Returns (Some (Errorf ''error transcribing audio: '' e)))"
      by (simp add: run_transcribing_def wv ok tv Inl)
    moreover from this assms
    have "WavWritten f bs \<in> set (wevs @ SpinnerSuffix '' Transcribing audio...'' # tevs @ [SpinnerStop])"
      by auto
    ultimately show ?thesis by blast
  next
    case (Inr t)
    have "run_transcribing w k rec =
            ((wevs @ SpinnerSuffix '' Transcribing audio...'' # tevs @ fst (run_generating w k t))
               @ [OsRemove tempFileName],
             Returns (snd (run_generating w k t)))"
      by (simp add: run_transcribing_def wv ok tv Inr)
    moreover from this assms
    have "WavWritten f bs \<in> set (wevs @ SpinnerSuffix '' Transcribing audio...'' # tevs
                                   @ fst (run_generating w k t))"
      by auto
    ultimately show ?thesis by blast
  qed
qed

lemma temp_file_removed_after_successful_write:
  assumes "run w = Some (evs, r)" and "WavWritten f bs \<in> set evs"
  shows "\<exists>before after. evs = before @ OsRemove tempFileName # after
           \<and> WavWritten f bs \<in> set before"
proof -
  let ?k = "Getenv (OPENAI_API_KEY w)"
  let ?rec = "recordedData (exec (schedule w) initial_state)"
  have "\<exists>after. evs = started @ fst (run_transcribing w ?k ?rec) @ after
           \<and> WavWritten f bs \<in> set (fst (run_transcribing w ?k ?rec))"
    using assms
    by (auto simp: run_def Let_def started_def
             split: if_splits option.splits location.splits prod.splits outcome.splits)
  then obtain rec after where
    evs: "evs = started @ fst (run_transcribing w ?k rec) @ after"
    and wr: "WavWritten f bs \<in> set (fst (run_transcribing w ?k rec))"
    by blast
  from run_transcribing_written [OF wr] obtain before r' where
    "run_transcribing w ?k rec = (before @ [OsRemove tempFileName], Returns r')"
    and "WavWritten f bs \<in> set before"
    by blast
  then have "evs = (started @ before) @ OsRemove tempFileName # after"
    and "WavWritten f bs \<in> set (started @ before)"
    by (simp_all add: evs)
  then show ?thesis by blast
qed

subsection \<open>The concrete runs, evaluated\<close>

lemma decode_text_body: "decode_transcription text_body \<lparr>Text = []\<rparr> = Inr \<lparr>Text = ''list files''\<rparr>"
  by code_simp

lemma members_no_text_body: "members ''text'' [(''task'', JString ''transcribe''), (''language'', JString ''english'')] = []"
  by code_simp

lemma decode_no_text_body: "decode_transcription no_text_body \<lparr>Text = []\<rparr> = Inr \<lparr>Text = []\<rparr>"
  by code_simp

lemma chat_choices_chat_body: "chat_choices chat_body = Some ['' ls -la '']"
  by code_simp

lemma decode_chat_body:
  "decode_chat chat_body \<lparr>Choices = []\<rparr> = Inr \<lparr>Choices = [\<lparr>Message = \<lparr>Content = '' ls -la ''\<rparr>\<rparr>]\<rparr>"
  using decode_chat_conforming [OF chat_choices_chat_body] by simp

lemma decode_no_choices_body: "decode_chat no_choices_body \<lparr>Choices = []\<rparr> = Inr \<lparr>Choices = []\<rparr>"
  by code_simp

lemma Base_temp: "Base ''temp.wav'' = ''temp.wav''"
  by code_simp


lemma recording_stopped:
  "pc (exec [StdinReadReturns, LoadFlag] initial_state) = LoopExited"
  "recordedData (exec [StdinReadReturns, LoadFlag] initial_state) = []"
  by (simp_all add: initial_state_def)

lemma chunk_recorded:
  "pc (exec [LoadFlag, StreamRead \<lparr>written = recorded_chunk, read_err = None\<rparr>,
             StdinReadReturns, LoadFlag] initial_state) = LoopExited"
  "recordedData (exec [LoadFlag, StreamRead \<lparr>written = recorded_chunk, read_err = None\<rparr>,
                       StdinReadReturns, LoadFlag] initial_state) = recorded_chunk"
  by (simp_all add: initial_state_def store_chunk_def recorded_chunk_def framesPerChunk_def Let_def)

lemma transcribe_text_body:
  "transcribeAudio (transcription_io (recorded_world (ok_response text_body) cresp))
     ''sk-test'' tempFileName =
     ([OsOpen ''temp.wav'',
       HttpPost transcription_url ''Bearer sk-test''
         (Multipart ''temp.wav'' (wav_file_bytes recorded_chunk 1 44100) ''whisper-1''),
       BodyClose, FileClose ''temp.wav''], Inr ''list files'')"
  by (simp add: transcribeAudio_def recorded_world_def ok_response_def Let_def tempFileName_def
        Base_temp decode_text_body)

lemmas sample_unfold =
  program_def main_def run_def run_transcribing_def run_generating_def writeWavFile_def
  transcribeAudio_def generateBashCommand_def sample_world_def ok_response_def Let_def
  Getenv_def tempFileName_def init_def Errorf_def recording_stopped Base_temp
  NewEncoder_cap_run

lemmas recorded_unfold =
  program_def main_def run_def run_transcribing_def run_generating_def writeWavFile_def
  transcribeAudio_def generateBashCommand_def recorded_world_def ok_response_def Let_def
  Getenv_def tempFileName_def init_def recorded_trace_def Errorf_def chunk_recorded Base_temp
  NewEncoder_cap_run

lemma recorded_program_ok:
  "program (recorded_world (ok_response text_body) (ok_response chat_body)) =
     Some (recorded_trace ''list files''
             [Stdout ([CHR 0x0A] @ ''ls -la'' @ [CHR 0x0A]), OsRemove ''temp.wav'',
              SpinnerStop, StreamClose, PaTerminate], 0)"
  by (simp add: recorded_unfold decode_text_body decode_chat_body TrimSpace_example del: exec.simps)

lemma recorded_program_no_choices:
  "program (recorded_world (ok_response text_body) (ok_response no_choices_body)) =
     Some (recorded_trace ''list files''
             [OsRemove ''temp.wav'', SpinnerStop, StreamClose, PaTerminate,
              Stdout (''An error occurred: error generating command: no choices returned from chat completion'' @ [CHR 0x0A])], 1)"
  by (simp add: recorded_unfold decode_text_body decode_no_choices_body del: exec.simps)

lemma recorded_program_no_text:
  "program (recorded_world (ok_response no_text_body) (ok_response chat_body)) =
     Some (recorded_trace []
             [Stdout ([CHR 0x0A] @ ''ls -la'' @ [CHR 0x0A]), OsRemove ''temp.wav'',
              SpinnerStop, StreamClose, PaTerminate], 0)"
  by (simp add: recorded_unfold decode_no_text_body decode_chat_body TrimSpace_example del: exec.simps)

subsection \<open>The pipeline\<close>

text \<open>
  C1. In every run that gets as far as the chat request (the key is set, the audio
  calls succeed, the recording is ended by the flag, whatever was recorded, the file is
  written and the transcription returns a text), when the response to the chat request
  has status 200 and a body of the documented shape with a non-empty list of choices,
  the program returns: it has sent the chat request, it has printed to standard output
  the content of the first choice with its leading and trailing white space removed
  (between the two line breaks of the format of line 192) and nothing else, and it
  exits with status 0. What is printed has no white space at either end, and the
  content is it with white space before and after.
\<close>

theorem first_choice_printed_trimmed:
  assumes "OPENAI_API_KEY w = Some k" and "k \<noteq> []"
    and "pa_initialize_err w = None" and "open_stream_err w = None" and "stream_start_err w = None"
    and "pc (exec (schedule w) initial_state) = LoopExited"
    and "stream_stop_err w = None"
    and "create_err (wav_io w) = None" and "encoder_buffer (wav_io w) = Allocated"
    and "enc_write_err (wav_io w) = None" and "enc_close_err (wav_io w) = None"
    and "snd (transcribeAudio (transcription_io w) k tempFileName) = Inr userText"
    and "marshal_err (chat_io w) = None" and "g_new_request_err (chat_io w) = None"
    and "g_do (chat_io w) = Inr resp" and "StatusCode resp = 200" and "BodyJSON resp = Inr body"
    and "chat_choices body = Some (content # others)"
  shows "\<exists>evs. program w = Some (evs, 0)
           \<and> HttpPost chat_url (''Bearer '' @ k) (ChatJSON (chat_payload userText)) \<in> set evs
           \<and> stdout evs = [CHR 0x0A] @ TrimSpace content @ [CHR 0x0A]
           \<and> leading_space (TrimSpace content) = None \<and> trailing_space (TrimSpace content) = None
           \<and> (\<exists>l r. content = l @ TrimSpace content @ r \<and> whitespace l \<and> whitespace r)"
proof -
  let ?t = "transcribeAudio (transcription_io w) k tempFileName"
  let ?post = "HttpPost chat_url (''Bearer '' @ k) (ChatJSON (chat_payload userText))"
  have t: "?t = (fst ?t, Inr userText)"
    using assms(12) by (cases ?t) simp
  have g: "generateBashCommand (chat_io w) k userText = ([?post, BodyClose], Inr content)"
    using assms(13-18) by (rule generate_ok)
  let ?evs = "init @ started
                @ [OsCreate tempFileName,
                   WavWritten tempFileName
                     (wav_file_bytes (recordedData (exec (schedule w) initial_state)) 1 44100),
                   FileClose tempFileName, SpinnerSuffix '' Transcribing audio...'']
                @ fst ?t @ SpinnerSuffix '' Generating command...'' # [?post, BodyClose]
                @ [SpinnerStop, Stdout ([CHR 0x0A] @ TrimSpace content @ [CHR 0x0A]),
                   OsRemove tempFileName, SpinnerStop, StreamClose, PaTerminate]"
  have p: "program w = Some (?evs, 0)"
    using program_after_recording [OF assms(1-11) t g] by simp
  have "stdout ?evs = [CHR 0x0A] @ TrimSpace content @ [CHR 0x0A]"
    by (simp add: stdout_append stdout_started [unfolded stdout_append] transcribeAudio_events(1))
  moreover have "?post \<in> set ?evs"
    by simp
  ultimately show ?thesis
    using p TrimSpace_spec [of content] by blast
qed

theorem first_choice_printed_trimmed_witness:
  "pc (exec (schedule (recorded_world (ok_response text_body) (ok_response chat_body)))
         initial_state) = LoopExited
   \<and> recordedData (exec (schedule (recorded_world (ok_response text_body) (ok_response chat_body)))
         initial_state) = recorded_chunk
   \<and> length recorded_chunk = 1024
   \<and> program (recorded_world (ok_response text_body) (ok_response chat_body)) =
     Some (recorded_trace ''list files''
             [Stdout ([CHR 0x0A] @ ''ls -la'' @ [CHR 0x0A]), OsRemove ''temp.wav'',
              SpinnerStop, StreamClose, PaTerminate], 0)
   \<and> chat_choices chat_body = Some ['' ls -la '']
   \<and> TrimSpace '' ls -la '' = ''ls -la''
   \<and> stdout (recorded_trace ''list files''
             [Stdout ([CHR 0x0A] @ ''ls -la'' @ [CHR 0x0A]), OsRemove ''temp.wav'',
              SpinnerStop, StreamClose, PaTerminate]) = [CHR 0x0A] @ ''ls -la'' @ [CHR 0x0A]"
  using first_choice_printed_trimmed
    [of "recorded_world (ok_response text_body) (ok_response chat_body)" "''sk-test''"
        "''list files''" "ok_response chat_body" chat_body "'' ls -la ''" "[]"]
    recorded_program_ok chat_choices_chat_body TrimSpace_example chunk_recorded
    transcribe_text_body [of "ok_response chat_body"]
  by (simp add: recorded_world_def ok_response_def recorded_chunk_def del: exec.simps)

text \<open>
  C4. In every run that gets as far as the chat request, when the response to the chat
  request has status 200 and a body whose list of choices is empty, the run fails: the
  program returns having printed the error of line 344, which contains "no choices
  returned", and exits with status 1.
\<close>

theorem empty_choices_is_fatal:
  assumes "OPENAI_API_KEY w = Some k" and "k \<noteq> []"
    and "pa_initialize_err w = None" and "open_stream_err w = None" and "stream_start_err w = None"
    and "pc (exec (schedule w) initial_state) = LoopExited"
    and "stream_stop_err w = None"
    and "create_err (wav_io w) = None" and "encoder_buffer (wav_io w) = Allocated"
    and "enc_write_err (wav_io w) = None" and "enc_close_err (wav_io w) = None"
    and "snd (transcribeAudio (transcription_io w) k tempFileName) = Inr userText"
    and "marshal_err (chat_io w) = None" and "g_new_request_err (chat_io w) = None"
    and "g_do (chat_io w) = Inr resp" and "StatusCode resp = 200"
    and "BodyJSON resp = Inr (JObject kvs)" and "members ''choices'' kvs = [JArray []]"
  shows "\<exists>evs. program w = Some (evs, 1)
           \<and> HttpPost chat_url (''Bearer '' @ k) (ChatJSON (chat_payload userText)) \<in> set evs
           \<and> stdout evs = ''An error occurred: error generating command: ''
                            @ ''no choices returned'' @ '' from chat completion'' @ [CHR 0x0A]
           \<and> sublist ''no choices returned'' (stdout evs)"
proof -
  let ?t = "transcribeAudio (transcription_io w) k tempFileName"
  let ?post = "HttpPost chat_url (''Bearer '' @ k) (ChatJSON (chat_payload userText))"
  have t: "?t = (fst ?t, Inr userText)"
    using assms(12) by (cases ?t) simp
  have g: "generateBashCommand (chat_io w) k userText =
             ([?post, BodyClose], Inl (errorString ''no choices returned from chat completion''))"
    using assms(13-18) by (rule generate_no_choices)
  let ?evs = "init @ started
                @ [OsCreate tempFileName,
                   WavWritten tempFileName
                     (wav_file_bytes (recordedData (exec (schedule w) initial_state)) 1 44100),
                   FileClose tempFileName, SpinnerSuffix '' Transcribing audio...'']
                @ fst ?t @ SpinnerSuffix '' Generating command...'' # [?post, BodyClose]
                @ [SpinnerStop, OsRemove tempFileName, SpinnerStop, StreamClose, PaTerminate,
                   Stdout (''An error occurred: ''
                           @ Error (Errorf ''error generating command: ''
                                      (errorString ''no choices returned from chat completion''))
                           @ [CHR 0x0A])]"
  have p: "program w = Some (?evs, 1)"
    using program_after_recording [OF assms(1-11) t g] by simp
  have out: "stdout ?evs = ''An error occurred: error generating command: ''
                            @ ''no choices returned'' @ '' from chat completion'' @ [CHR 0x0A]"
    by (simp add: stdout_append stdout_started [unfolded stdout_append] transcribeAudio_events(1)
          Errorf_def)
  have "sublist ''no choices returned'' (stdout ?evs)"
    unfolding out by (rule sublist_appendI)
  moreover have "?post \<in> set ?evs"
    by simp
  ultimately show ?thesis
    using p out by blast
qed

theorem empty_choices_is_fatal_witness:
  "pc (exec (schedule (recorded_world (ok_response text_body) (ok_response no_choices_body)))
         initial_state) = LoopExited
   \<and> recordedData (exec (schedule (recorded_world (ok_response text_body) (ok_response no_choices_body)))
         initial_state) = recorded_chunk
   \<and> length recorded_chunk = 1024
   \<and> program (recorded_world (ok_response text_body) (ok_response no_choices_body)) =
     Some (recorded_trace ''list files''
             [OsRemove ''temp.wav'', SpinnerStop, StreamClose, PaTerminate,
              Stdout (''An error occurred: error generating command: no choices returned from chat completion'' @ [CHR 0x0A])], 1)
   \<and> members ''choices'' [(''choices'', JArray [])] = [JArray []]
   \<and> sublist ''no choices returned''
         (stdout (recorded_trace ''list files''
             [OsRemove ''temp.wav'', SpinnerStop, StreamClose, PaTerminate,
              Stdout (''An error occurred: error generating command: no choices returned from chat completion'' @ [CHR 0x0A])]))"
  using empty_choices_is_fatal
    [of "recorded_world (ok_response text_body) (ok_response no_choices_body)" "''sk-test''"
        "''list files''" "ok_response no_choices_body" "[(''choices'', JArray [])]"]
    recorded_program_no_choices chunk_recorded
    transcribe_text_body [of "ok_response no_choices_body"]
  by (simp add: recorded_world_def ok_response_def no_choices_body_def recorded_chunk_def
        recorded_trace_def members_def EqualFold_def del: exec.simps)



text \<open>
  C6. With OPENAI_API_KEY unset once the optional file has been loaded, the program
  prints the error of line 97 and exits with status 1, and the calls it has made are
  those of \<open>init\<close> (an environment variable and two error callbacks that do nothing),
  the loading of the file and the print: no call to portaudio, neither its
  initialisation nor any call on a stream.
\<close>

theorem missing_api_key_fails_before_audio:
  assumes "OPENAI_API_KEY w = None"
  shows "program w =
           Some (init @ [LoadDotenv,
                   Stdout (''An error occurred: OpenAI API key not found. Please set OPENAI_API_KEY in your environment or .env file'' @ [CHR 0x0A])], 1)
       \<and> filter audio_call
            (init @ [LoadDotenv,
                   Stdout (''An error occurred: OpenAI API key not found. Please set OPENAI_API_KEY in your environment or .env file'' @ [CHR 0x0A])]) = []"
proof -
  have key: "Getenv (OPENAI_API_KEY w) = []"
    using assms by (simp add: Getenv_def)
  have "run w = Some ([LoadDotenv],
          Returns (Some (errorString ''OpenAI API key not found. Please set OPENAI_API_KEY in your environment or .env file'')))"
    by (simp add: run_def key)
  then have "program w =
           Some (init @ [LoadDotenv,
                   Stdout (''An error occurred: OpenAI API key not found. Please set OPENAI_API_KEY in your environment or .env file'' @ [CHR 0x0A])], 1)"
    by (simp add: program_def main_def)
  moreover have "filter audio_call
            (init @ [LoadDotenv,
                   Stdout (''An error occurred: OpenAI API key not found. Please set OPENAI_API_KEY in your environment or .env file'' @ [CHR 0x0A])]) = []"
    by (simp add: init_def)
  ultimately show ?thesis by blast
qed

theorem missing_api_key_fails_before_audio_witness:
  "OPENAI_API_KEY ((sample_world (ok_response text_body) (ok_response chat_body))\<lparr>OPENAI_API_KEY := None\<rparr>) = None
   \<and> program ((sample_world (ok_response text_body) (ok_response chat_body))\<lparr>OPENAI_API_KEY := None\<rparr>) =
       Some ([Setenv ''JACK_NO_START_SERVER'' ''1'', SetJackErrorHandler, SetAlsaErrorHandler, LoadDotenv,
              Stdout (''An error occurred: OpenAI API key not found. Please set OPENAI_API_KEY in your environment or .env file'' @ [CHR 0x0A])], 1)"
  using missing_api_key_fails_before_audio
    [of "(sample_world (ok_response text_body) (ok_response chat_body))\<lparr>OPENAI_API_KEY := None\<rparr>"]
  by (simp add: init_def)

text \<open>
  C7 fails on the code. In the run below \<open>os.Create\<close> succeeds and the write of the
  samples fails (the disk is full): \<open>run\<close> returns on line 170, before the removal is
  deferred on line 172, and the process exits with status 1 leaving temp.wav behind.
  On every return after a successful write the file is removed
  (\<open>temp_file_removed_after_successful_write\<close>).
\<close>

theorem temp_file_left_after_failed_write:
  "create_err (wav_io disk_full_world) = None
   \<and> program disk_full_world =
       Some ([Setenv ''JACK_NO_START_SERVER'' ''1'', SetJackErrorHandler, SetAlsaErrorHandler,
              LoadDotenv, PaInitialize, OpenDefaultStream, StreamStart,
              SpinnerSuffix '' Recording'', SpinnerStart, StartWatchers, StreamStop,
              OsCreate ''temp.wav'', FileClose ''temp.wav'',
              SpinnerStop, StreamClose, PaTerminate,
              Stdout (''An error occurred: failed to write wav file: write temp.wav: no space left on device'' @ [CHR 0x0A])],
             1)
   \<and> OsCreate tempFileName \<in> set (fst (the (program disk_full_world)))
   \<and> OsRemove tempFileName \<notin> set (fst (the (program disk_full_world)))"
proof -
  have "program disk_full_world =
       Some ([Setenv ''JACK_NO_START_SERVER'' ''1'', SetJackErrorHandler, SetAlsaErrorHandler,
              LoadDotenv, PaInitialize, OpenDefaultStream, StreamStart,
              SpinnerSuffix '' Recording'', SpinnerStart, StartWatchers, StreamStop,
              OsCreate ''temp.wav'', FileClose ''temp.wav'',
              SpinnerStop, StreamClose, PaTerminate,
              Stdout (''An error occurred: failed to write wav file: write temp.wav: no space left on device'' @ [CHR 0x0A])],
             1)"
    by (simp add: sample_unfold disk_full_world_def del: exec.simps)
  then show ?thesis
    by (simp add: disk_full_world_def sample_world_def tempFileName_def)
qed

text \<open>
  C10. In every run that gets as far as the transcription request (the key is set, the
  audio calls succeed, the recording is ended by the flag, whatever was recorded, the
  file is written and the request is built and sent), when the response has status 200
  and a JSON object for a body that has no member for the field \<open>text\<close> (no member whose
  name matches the tag, as the decoder matches names), transcribeAudio returns the
  empty string and no error, and the run goes on with lines 182-193 on the empty text
  and returns: generateBashCommand is called with it, so the chat request sent has an
  empty user message, and the exit status is that of the command generation.
\<close>

theorem missing_text_field_gives_empty_text:
  assumes "OPENAI_API_KEY w = Some k" and "k \<noteq> []"
    and "pa_initialize_err w = None" and "open_stream_err w = None" and "stream_start_err w = None"
    and "pc (exec (schedule w) initial_state) = LoopExited"
    and "stream_stop_err w = None"
    and "create_err (wav_io w) = None" and "encoder_buffer (wav_io w) = Allocated"
    and "enc_write_err (wav_io w) = None" and "enc_close_err (wav_io w) = None"
    and "open_err (transcription_io w) = None" and "create_form_file_err (transcription_io w) = None"
    and "copy_result (transcription_io w) = Inr bytes" and "write_field_err (transcription_io w) = None"
    and "writer_close_err (transcription_io w) = None" and "t_new_request_err (transcription_io w) = None"
    and "t_do (transcription_io w) = Inr resp" and "StatusCode resp = 200"
    and "BodyJSON resp = Inr (JObject kvs)" and "members ''text'' kvs = []"
  shows "snd (transcribeAudio (transcription_io w) k tempFileName) = Inr []
       \<and> (\<exists>evs before.
            program w = Some (evs, case snd (run_generating w k []) of None \<Rightarrow> 0 | Some e \<Rightarrow> 1)
          \<and> HttpPost transcription_url (''Bearer '' @ k)
               (Multipart (Base tempFileName) bytes ''whisper-1'') \<in> set before
          \<and> evs = before @ fst (run_generating w k [])
              @ [OsRemove tempFileName, SpinnerStop, StreamClose, PaTerminate]
              @ (case snd (run_generating w k []) of
                   None \<Rightarrow> []
                 | Some e \<Rightarrow> [Stdout (''An error occurred: '' @ Error e @ [CHR 0x0A])])
          \<and> (marshal_err (chat_io w) = None \<and> g_new_request_err (chat_io w) = None \<longrightarrow>
               HttpPost chat_url (''Bearer '' @ k) (ChatJSON (chat_payload [])) \<in> set evs))"
proof -
  let ?tpost = "HttpPost transcription_url (''Bearer '' @ k)
                  (Multipart (Base tempFileName) bytes ''whisper-1'')"
  let ?tevs = "[OsOpen tempFileName, ?tpost, BodyClose, FileClose tempFileName]"
  let ?g = "generateBashCommand (chat_io w) k []"
  let ?before = "init @ started
                   @ [OsCreate tempFileName,
                      WavWritten tempFileName
                        (wav_file_bytes (recordedData (exec (schedule w) initial_state)) 1 44100),
                      FileClose tempFileName, SpinnerSuffix '' Transcribing audio...'']
                   @ ?tevs"
  let ?evs = "?before @ fst (run_generating w k [])
              @ [OsRemove tempFileName, SpinnerStop, StreamClose, PaTerminate]
              @ (case snd (run_generating w k []) of
                   None \<Rightarrow> []
                 | Some e \<Rightarrow> [Stdout (''An error occurred: '' @ Error e @ [CHR 0x0A])])"
  have t: "transcribeAudio (transcription_io w) k tempFileName = (?tevs, Inr [])"
    using assms(12-21) by (rule transcribe_no_text)
  have g: "?g = (fst ?g, snd ?g)"
    by simp
  have p: "program w = Some (?evs, case snd (run_generating w k []) of None \<Rightarrow> 0 | Some e \<Rightarrow> 1)"
    using program_after_recording [OF assms(1-11) t g]
    by (simp add: run_generating_def split: prod.splits sum.splits)
  have "marshal_err (chat_io w) = None \<and> g_new_request_err (chat_io w) = None \<longrightarrow>
            HttpPost chat_url (''Bearer '' @ k) (ChatJSON (chat_payload [])) \<in> set ?evs"
  proof
    assume "marshal_err (chat_io w) = None \<and> g_new_request_err (chat_io w) = None"
    then have "HttpPost chat_url (''Bearer '' @ k) (ChatJSON (chat_payload [])) \<in> set (fst ?g)"
      using generate_post [of "chat_io w" k "[]"] by blast
    then have "HttpPost chat_url (''Bearer '' @ k) (ChatJSON (chat_payload []))
                 \<in> set (fst (run_generating w k []))"
      by (auto simp: run_generating_def split: prod.splits sum.splits)
    then show "HttpPost chat_url (''Bearer '' @ k) (ChatJSON (chat_payload [])) \<in> set ?evs"
      by simp
  qed
  moreover have "?tpost \<in> set ?before"
    by simp
  ultimately show ?thesis
    using t p by (intro conjI exI [of _ ?evs] exI [of _ ?before]) simp_all
qed

theorem missing_text_field_gives_empty_text_witness:
  "pc (exec (schedule (recorded_world (ok_response no_text_body) (ok_response chat_body)))
         initial_state) = LoopExited
   \<and> recordedData (exec (schedule (recorded_world (ok_response no_text_body) (ok_response chat_body)))
         initial_state) = recorded_chunk
   \<and> length recorded_chunk = 1024
   \<and> program (recorded_world (ok_response no_text_body) (ok_response chat_body)) =
     Some (recorded_trace []
             [Stdout ([CHR 0x0A] @ ''ls -la'' @ [CHR 0x0A]), OsRemove ''temp.wav'',
              SpinnerStop, StreamClose, PaTerminate], 0)
   \<and> members ''text'' [(''task'', JString ''transcribe''), (''language'', JString ''english'')] = []
   \<and> snd (transcribeAudio
            (transcription_io (recorded_world (ok_response no_text_body) (ok_response chat_body)))
            ''sk-test'' tempFileName) = Inr []
   \<and> HttpPost chat_url ''Bearer sk-test'' (ChatJSON (chat_payload []))
        \<in> set (recorded_trace []
             [Stdout ([CHR 0x0A] @ ''ls -la'' @ [CHR 0x0A]), OsRemove ''temp.wav'',
              SpinnerStop, StreamClose, PaTerminate])"
  using missing_text_field_gives_empty_text
    [of "recorded_world (ok_response no_text_body) (ok_response chat_body)" "''sk-test''"
        "wav_file_bytes recorded_chunk 1 44100" "ok_response no_text_body"
        "[(''task'', JString ''transcribe''), (''language'', JString ''english'')]"]
    recorded_program_no_text members_no_text_body chunk_recorded
  by (simp add: recorded_world_def ok_response_def no_text_body_def recorded_chunk_def
        recorded_trace_def del: exec.simps)

end
